theory Spec2Isabelle
  imports Complex_Main "HOL-Library.Word"
begin

unbundle bit_operations_syntax

section \<open>Errors\<close>

text \<open>
  Go errors are values. The handlers only ever ask three questions of an error: is it
  \<^verbatim>\<open>context.Canceled\<close>, is it \<^verbatim>\<open>context.DeadlineExceeded\<close>
  (\<^verbatim>\<open>errors.Is\<close>), and is it the index engine's not-found answer
  (\<^verbatim>\<open>elastic.IsNotFound\<close>). \<^verbatim>\<open>errors.WithStack\<close> only attaches a stack trace,
  so it is the identity here. A panic is a value of its own.
\<close>

datatype error = ContextCanceled | DeadlineExceeded | ESNotFound | Err string

datatype panic = Panic string

section \<open>Certificate manager (cmd/search/manager.go)\<close>

text \<open>
  The struct \<^verbatim>\<open>CertificateManager\<close>: the two file names, the published certificate
  (a pointer, nil before the first load) and the reader/writer lock. The ticker and the
  done channel belong to the background task of \<^verbatim>\<open>Start\<close> and are left out. The
  certificate type is a parameter.
\<close>

datatype RWMutex = Unlocked | WriteLocked | ReadLocked nat

record 'cert CertificateManager =
  CertFile :: string
  KeyFile :: string
  certificate :: "'cert option"
  mu :: RWMutex

text \<open>
  The operations a method performs on the manager, in program order. A method of the
  source is the list of its operations; \<open>exec\<close> runs one operation, \<open>execs\<close> a list.
  A \<open>Lock\<close> or \<open>RLock\<close> that cannot be taken blocks: in this sequential model the run
  has no next state (\<open>None\<close>).
\<close>

datatype 'cert op = Lock | Unlock | RLock | RUnlock | Store 'cert

fun exec :: "'cert op \<Rightarrow> 'cert CertificateManager \<Rightarrow> 'cert CertificateManager option" where
  "exec Lock c = (if mu c = Unlocked then Some (c\<lparr>mu := WriteLocked\<rparr>) else None)"
| "exec Unlock c = (if mu c = WriteLocked then Some (c\<lparr>mu := Unlocked\<rparr>) else None)"
| "exec RLock c =
     (case mu c of
        Unlocked \<Rightarrow> Some (c\<lparr>mu := ReadLocked 1\<rparr>)
      | ReadLocked n \<Rightarrow> Some (c\<lparr>mu := ReadLocked (Suc n)\<rparr>)
      | WriteLocked \<Rightarrow> None)"
| "exec RUnlock c =
     (case mu c of
        ReadLocked n \<Rightarrow> Some (c\<lparr>mu := (if n \<le> 1 then Unlocked else ReadLocked (n - 1))\<rparr>)
      | _ \<Rightarrow> None)"
| "exec (Store cert) c = Some (c\<lparr>certificate := Some cert\<rparr>)"

fun execs :: "'cert op list \<Rightarrow> 'cert CertificateManager \<Rightarrow> 'cert CertificateManager option" where
  "execs [] c = Some c"
| "execs (x # xs) c = (case exec x c of None \<Rightarrow> None | Some c' \<Rightarrow> execs xs c')"

text \<open>
  \<^verbatim>\<open>reloadCertificate\<close>: \<^verbatim>\<open>tls.LoadX509KeyPair(c.CertFile, c.KeyFile)\<close> reads the
  file system, so the loader is a parameter (what the files hold at the time of the
  call). On an error the method returns before it touches the lock. Otherwise it takes
  the write lock, assigns the field and (deferred) releases the lock.
\<close>

definition reloadCertificate_ops ::
  "(string \<Rightarrow> string \<Rightarrow> error + 'cert) \<Rightarrow> 'cert CertificateManager \<Rightarrow> 'cert op list" where
  "reloadCertificate_ops LoadX509KeyPair c =
     (case LoadX509KeyPair (CertFile c) (KeyFile c) of
        Inl err \<Rightarrow> []
      | Inr cert \<Rightarrow> [Lock, Store cert, Unlock])"

definition reloadCertificate ::
  "(string \<Rightarrow> string \<Rightarrow> error + 'cert) \<Rightarrow> 'cert CertificateManager
     \<Rightarrow> (error option \<times> 'cert CertificateManager) option" where
  "reloadCertificate LoadX509KeyPair c =
     (case execs (reloadCertificate_ops LoadX509KeyPair c) c of
        None \<Rightarrow> None
      | Some c' \<Rightarrow>
          Some (case LoadX509KeyPair (CertFile c) (KeyFile c) of
                  Inl err \<Rightarrow> (Some err, c')
                | Inr cert \<Rightarrow> (None, c')))"

text \<open>\<^verbatim>\<open>GetCertificate\<close>: read lock, return the field, release (deferred).\<close>

definition GetCertificate_ops :: "'cert op list" where
  "GetCertificate_ops = [RLock, RUnlock]"

definition GetCertificate ::
  "'cert CertificateManager \<Rightarrow> ('cert option \<times> 'cert CertificateManager) option" where
  "GetCertificate c =
     (case execs GetCertificate_ops c of
        None \<Rightarrow> None
      | Some c' \<Rightarrow> Some (certificate c, c'))"

text \<open>
  Every \<open>Store\<close> of an operation list happens while the write lock is held: the flag is
  whether the list's own \<open>Lock\<close> is in force.
\<close>

fun stores_locked :: "bool \<Rightarrow> 'cert op list \<Rightarrow> bool" where
  "stores_locked held [] = True"
| "stores_locked held (Lock # xs) = stores_locked True xs"
| "stores_locked held (Unlock # xs) = stores_locked False xs"
| "stores_locked held (Store cert # xs) = (held \<and> stores_locked held xs)"
| "stores_locked held (x # xs) = stores_locked held xs"

section \<open>Byte strings and the standard library\<close>

text \<open>
  A Go \<^verbatim>\<open>string\<close> and a \<^verbatim>\<open>[]byte\<close> are both byte sequences; \<^typ>\<open>string\<close>
  (a list of 8-bit characters) models both, and \<open>length\<close> is Go's \<^verbatim>\<open>len\<close>.
\<close>

definition byte :: "char \<Rightarrow> nat" where
  "byte c = of_char c"

subsection \<open>strings, strconv, html\<close>

text \<open>
  \<^verbatim>\<open>strings.ToUpper\<close>, on ASCII letters. (Go also maps letters beyond ASCII; every
  name the bootstrap passes is ASCII.)
\<close>

definition toUpperByte :: "char \<Rightarrow> char" where
  "toUpperByte c = (if 97 \<le> byte c \<and> byte c \<le> 122 then char_of (byte c - 32) else c)"

definition toLowerByte :: "char \<Rightarrow> char" where
  "toLowerByte c = (if 65 \<le> byte c \<and> byte c \<le> 90 then char_of (byte c + 32) else c)"

definition ToUpper :: "string \<Rightarrow> string" where
  "ToUpper s = map toUpperByte s"

text \<open>
  \<^verbatim>\<open>strings.ReplaceAll(s, old, new)\<close> for a non-empty \<open>old\<close>: the non-overlapping
  matches, leftmost first. (With an empty \<open>old\<close> Go inserts \<open>new\<close> around every
  UTF-8 sequence; the program never passes one, and the model leaves \<open>s\<close> as it is.)
\<close>

function ReplaceAll :: "string \<Rightarrow> string \<Rightarrow> string \<Rightarrow> string" where
  "ReplaceAll s old new =
     (if s = [] \<or> old = [] then s
      else if take (length old) s = old then new @ ReplaceAll (drop (length old) s) old new
      else hd s # ReplaceAll (tl s) old new)"
  by pat_completeness auto
termination
  by (relation "measure (\<lambda>(s, old, new). length s)") (auto simp: neq_Nil_conv)

text \<open>\<^verbatim>\<open>strconv.Itoa\<close>: the decimal digits, with a sign.\<close>

function itoa_nat :: "nat \<Rightarrow> string" where
  "itoa_nat n =
     (if n < 10 then [char_of (48 + n)] else itoa_nat (n div 10) @ [char_of (48 + n mod 10)])"
  by pat_completeness auto
termination
  by (relation "measure (\<lambda>n. n)") auto

definition Itoa :: "int \<Rightarrow> string" where
  "Itoa i = (if i < 0 then CHR ''-'' # itoa_nat (nat (- i)) else itoa_nat (nat i))"

text \<open>\<^verbatim>\<open>html.EscapeString\<close> escapes the five characters \<open>& ' < > "\<close>.\<close>

definition escapeByte :: "char \<Rightarrow> string" where
  "escapeByte c =
     (if byte c = 38 then ''&amp;''
      else if byte c = 39 then ''&#39;''
      else if byte c = 60 then ''&lt;''
      else if byte c = 62 then ''&gt;''
      else if byte c = 34 then ''&#34;''
      else [c])"

definition EscapeString :: "string \<Rightarrow> string" where
  "EscapeString s = concat (map escapeByte s)"

subsection \<open>crypto/sha256\<close>

text \<open>
  SHA-256 as FIPS 180-4 defines it, on 32-bit words: padding, the message schedule,
  64 rounds per 64-byte block.
\<close>

type_synonym u32 = "32 word"
type_synonym sha256_state = "u32 \<times> u32 \<times> u32 \<times> u32 \<times> u32 \<times> u32 \<times> u32 \<times> u32"

definition rotr :: "nat \<Rightarrow> u32 \<Rightarrow> u32" where
  "rotr n x = drop_bit n x OR push_bit (32 - n) x"

text \<open>The round constants, eight to a row as the standard prints them.\<close>

definition sha256_K :: "u32 list" where
  "sha256_K = concat
    [[0x428a2f98, 0x71374491, 0xb5c0fbcf, 0xe9b5dba5, 0x3956c25b, 0x59f111f1, 0x923f82a4, 0xab1c5ed5],
     [0xd807aa98, 0x12835b01, 0x243185be, 0x550c7dc3, 0x72be5d74, 0x80deb1fe, 0x9bdc06a7, 0xc19bf174],
     [0xe49b69c1, 0xefbe4786, 0x0fc19dc6, 0x240ca1cc, 0x2de92c6f, 0x4a7484aa, 0x5cb0a9dc, 0x76f988da],
     [0x983e5152, 0xa831c66d, 0xb00327c8, 0xbf597fc7, 0xc6e00bf3, 0xd5a79147, 0x06ca6351, 0x14292967],
     [0x27b70a85, 0x2e1b2138, 0x4d2c6dfc, 0x53380d13, 0x650a7354, 0x766a0abb, 0x81c2c92e, 0x92722c85],
     [0xa2bfe8a1, 0xa81a664b, 0xc24b8b70, 0xc76c51a3, 0xd192e819, 0xd6990624, 0xf40e3585, 0x106aa070],
     [0x19a4c116, 0x1e376c08, 0x2748774c, 0x34b0bcb5, 0x391c0cb3, 0x4ed8aa4a, 0x5b9cca4f, 0x682e6ff3],
     [0x748f82ee, 0x78a5636f, 0x84c87814, 0x8cc70208, 0x90befffa, 0xa4506ceb, 0xbef9a3f7, 0xc67178f2]]"

definition sha256_init :: "sha256_state" where
  "sha256_init = (0x6a09e667, 0xbb67ae85, 0x3c6ef372, 0xa54ff53a,
                  0x510e527f, 0x9b05688c, 0x1f83d9ab, 0x5be0cd19)"

text \<open>The bytes of \<open>v\<close>, most significant first, \<open>n\<close> bytes wide.\<close>

fun be_bytes :: "nat \<Rightarrow> nat \<Rightarrow> nat list" where
  "be_bytes 0 v = []"
| "be_bytes (Suc n) v = be_bytes n (v div 256) @ [v mod 256]"

text \<open>Padding: a one bit, zeros up to 56 modulo 64, the bit length in 8 bytes.\<close>

definition sha256_pad :: "nat list \<Rightarrow> nat list" where
  "sha256_pad m =
     m @ [128] @ replicate ((119 - length m mod 64) mod 64) 0 @ be_bytes 8 (8 * length m)"

fun be_words :: "nat list \<Rightarrow> u32 list" where
  "be_words (a # b # c # d # r) =
     (push_bit 24 (of_nat a) OR push_bit 16 (of_nat b) OR push_bit 8 (of_nat c) OR of_nat d)
       # be_words r"
| "be_words r = []"

fun chunks :: "nat \<Rightarrow> 'a list \<Rightarrow> 'a list list" where
  "chunks n [] = []"
| "chunks n xs = (if n = 0 then [xs] else take n xs # chunks n (drop n xs))"

text \<open>
  The message schedule, newest word first: from the sixteen words of the block,
  each further word is \<open>\<sigma>1(W[t-2]) + W[t-7] + \<sigma>0(W[t-15]) + W[t-16]\<close>.
\<close>

fun schedule :: "nat \<Rightarrow> u32 list \<Rightarrow> u32 list" where
  "schedule 0 w = w"
| "schedule (Suc n) w =
     schedule n
       (((rotr 17 (w ! 1) XOR rotr 19 (w ! 1) XOR drop_bit 10 (w ! 1)) + w ! 6
         + (rotr 7 (w ! 14) XOR rotr 18 (w ! 14) XOR drop_bit 3 (w ! 14)) + w ! 15) # w)"

fun round256 :: "sha256_state \<Rightarrow> (u32 \<times> u32) \<Rightarrow> sha256_state" where
  "round256 (a, b, c, d, e, f, g, h) (k, w) =
     (let t1 = h + (rotr 6 e XOR rotr 11 e XOR rotr 25 e) + ((e AND f) XOR (NOT e AND g)) + k + w;
          t2 = (rotr 2 a XOR rotr 13 a XOR rotr 22 a) + ((a AND b) XOR (a AND c) XOR (b AND c))
      in (t1 + t2, a, b, c, d + t1, e, f, g))"

fun add_state :: "sha256_state \<Rightarrow> sha256_state \<Rightarrow> sha256_state" where
  "add_state (a, b, c, d, e, f, g, h) (a', b', c', d', e', f', g', h') =
     (a + a', b + b', c + c', d + d', e + e', f + f', g + g', h + h')"

definition sha256_block :: "sha256_state \<Rightarrow> nat list \<Rightarrow> sha256_state" where
  "sha256_block h blk =
     add_state h (foldl round256 h (zip sha256_K (rev (schedule 48 (rev (be_words blk))))))"

fun state_words :: "sha256_state \<Rightarrow> u32 list" where
  "state_words (a, b, c, d, e, f, g, h) = [a, b, c, d, e, f, g, h]"

definition sha256_nat :: "nat list \<Rightarrow> nat list" where
  "sha256_nat m =
     concat (map (\<lambda>w. map (\<lambda>i. unat (drop_bit i w AND 255)) [24, 16, 8, 0])
       (state_words (foldl sha256_block sha256_init (chunks 64 (sha256_pad m)))))"

text \<open>\<^verbatim>\<open>sha256.Sum256\<close>: the 32 bytes of the digest.\<close>

definition Sum256 :: "string \<Rightarrow> string" where
  "Sum256 m = map char_of (sha256_nat (map byte m))"

text \<open>
  \<^verbatim>\<open>sha256.New()\<close>, \<^verbatim>\<open>hash.Write\<close>, \<^verbatim>\<open>hash.Sum(nil)\<close>: the state of the
  running hash is the bytes written so far.
\<close>

definition sha256_New :: "string" where
  "sha256_New = []"

definition hash_Write :: "string \<Rightarrow> string \<Rightarrow> string" where
  "hash_Write h p = h @ p"

definition hash_Sum :: "string \<Rightarrow> string" where
  "hash_Sum h = Sum256 h"

subsection \<open>encoding/base64\<close>

text \<open>
  \<^verbatim>\<open>base64.RawURLEncoding.EncodeToString\<close>: the URL-safe alphabet, no padding. Three
  bytes give four characters; a rest of one byte gives two, of two bytes three.
\<close>

definition encodeURL :: "string" where
  "encodeURL = ''ABCDEFGHIJKLMNOPQRSTUVWXYZabcdefghijklmnopqrstuvwxyz0123456789-_''"

fun b64 :: "nat list \<Rightarrow> string" where
  "b64 (a # b # c # r) =
     [encodeURL ! (a div 4), encodeURL ! ((a mod 4) * 16 + b div 16),
      encodeURL ! ((b mod 16) * 4 + c div 64), encodeURL ! (c mod 64)] @ b64 r"
| "b64 [a, b] =
     [encodeURL ! (a div 4), encodeURL ! ((a mod 4) * 16 + b div 16), encodeURL ! ((b mod 16) * 4)]"
| "b64 [a] = [encodeURL ! (a div 4), encodeURL ! ((a mod 4) * 16)]"
| "b64 [] = []"

definition RawURLEncoding_EncodeToString :: "string \<Rightarrow> string" where
  "RawURLEncoding_EncodeToString src = b64 (map byte src)"

section \<open>HTTP: headers, requests, responses\<close>

subsection \<open>net/textproto and net/http headers\<close>

text \<open>
  \<^verbatim>\<open>textproto.CanonicalMIMEHeaderKey\<close>: a key with a byte that is not a token
  character is returned as it is; otherwise the first letter and every letter after
  a hyphen become upper case and the others lower case.
\<close>

definition validHeaderFieldByte :: "char \<Rightarrow> bool" where
  "validHeaderFieldByte c =
     ((48 \<le> byte c \<and> byte c \<le> 57) \<or> (65 \<le> byte c \<and> byte c \<le> 90) \<or>
      (97 \<le> byte c \<and> byte c \<le> 122) \<or>
      byte c \<in> set [33, 35, 36, 37, 38, 39, 42, 43, 45, 46, 94, 95, 96, 124, 126])"

fun canonicalMIMEHeaderKey :: "bool \<Rightarrow> string \<Rightarrow> string" where
  "canonicalMIMEHeaderKey upper [] = []"
| "canonicalMIMEHeaderKey upper (c # cs) =
     (let c' = (if upper then toUpperByte c else toLowerByte c)
      in c' # canonicalMIMEHeaderKey (byte c' = 45) cs)"

definition CanonicalMIMEHeaderKey :: "string \<Rightarrow> string" where
  "CanonicalMIMEHeaderKey s =
     (if list_all validHeaderFieldByte s then canonicalMIMEHeaderKey True s else s)"

text \<open>
  \<^verbatim>\<open>http.Header\<close> and \<^verbatim>\<open>url.Values\<close> are \<^verbatim>\<open>map[string][]string\<close>.
  \<open>Set\<close>, \<open>Add\<close> and \<open>Get\<close> canonicalise the key; \<open>Has\<close> of \<^verbatim>\<open>url.Values\<close>
  does not.
\<close>

type_synonym Header = "string \<rightharpoonup> string list"

definition Header_Set :: "Header \<Rightarrow> string \<Rightarrow> string \<Rightarrow> Header" where
  "Header_Set h key v = h(CanonicalMIMEHeaderKey key \<mapsto> [v])"

definition Header_Add :: "Header \<Rightarrow> string \<Rightarrow> string \<Rightarrow> Header" where
  "Header_Add h key v =
     h(CanonicalMIMEHeaderKey key \<mapsto>
        (case h (CanonicalMIMEHeaderKey key) of None \<Rightarrow> [] | Some vs \<Rightarrow> vs) @ [v])"

definition Header_Get :: "Header \<Rightarrow> string \<Rightarrow> string" where
  "Header_Get h key =
     (case h (CanonicalMIMEHeaderKey key) of
        None \<Rightarrow> []
      | Some [] \<Rightarrow> []
      | Some (v # vs) \<Rightarrow> v)"

definition Values_Has :: "Header \<Rightarrow> string \<Rightarrow> bool" where
  "Values_Has v key = (v key \<noteq> None)"

subsection \<open>Requests and response writers\<close>

text \<open>
  \<^verbatim>\<open>header.AcceptSpec\<close> of github.com/golang/gddo: one element of a parsed
  \<^verbatim>\<open>Accept-Encoding\<close> header, a value and its quality. The quality is a
  \<^verbatim>\<open>float64\<close> that is only ever compared; it is a rational here.
\<close>

record AcceptSpec =
  Value :: string
  Q :: rat

text \<open>
  What the handlers read of a \<^verbatim>\<open>*http.Request\<close>: the parsed \<^verbatim>\<open>Accept-Encoding\<close>
  header (the result of \<^verbatim>\<open>header.ParseAccept(r.Header, "Accept-Encoding")\<close>), the parsed
  form, the URL path and the request ID stored in the context (if any).
\<close>

record Request =
  AcceptEncoding :: "AcceptSpec list"
  Form :: Header
  URLPath :: string
  RequestID :: "string option"

text \<open>
  What a handler leaves in its \<^verbatim>\<open>http.ResponseWriter\<close>: the header map and what was
  sent. \<open>Written code body\<close> is \<^verbatim>\<open>WriteHeader(code)\<close> followed by the body;
  \<open>ServedContent data\<close> is the hand-over of \<open>data\<close> to \<^verbatim>\<open>http.ServeContent\<close>, which
  answers conditional and range requests from it; \<open>Proxied\<close> is the hand-over to the
  reverse proxy.
\<close>

datatype sent = NotWritten | Written nat string | ServedContent string | Proxied

record ResponseWriter =
  Header :: Header
  Sent :: sent

text \<open>\<^verbatim>\<open>http.Error\<close> and \<^verbatim>\<open>http.NotFound\<close>.\<close>

definition http_Error :: "ResponseWriter \<Rightarrow> string \<Rightarrow> nat \<Rightarrow> ResponseWriter" where
  "http_Error w msg code =
     (let h = Header_Set (Header w) ''Content-Type'' ''text/plain; charset=utf-8'';
          h = Header_Set h ''X-Content-Type-Options'' ''nosniff''
      in w\<lparr>Header := h, Sent := Written code (msg @ [char_of (10::nat)])\<rparr>)"

definition http_NotFound :: "ResponseWriter \<Rightarrow> ResponseWriter" where
  "http_NotFound w = http_Error w ''404 page not found'' 404"

definition http_ServeContent :: "ResponseWriter \<Rightarrow> string \<Rightarrow> ResponseWriter" where
  "http_ServeContent w content = w\<lparr>Sent := ServedContent content\<rparr>"

subsection \<open>The index engine's client\<close>

text \<open>
  \<^verbatim>\<open>elastic.PerformRequestOptions\<close> and \<^verbatim>\<open>elastic.Response\<close>, with the fields
  the handlers use. The client itself is the field \<open>ESClient\<close> of the service: the
  answer to a request, as a function.
\<close>

record PerformRequestOptions =
  Method :: string
  Path :: string
  Headers :: Header

record Response =
  RespHeader :: Header
  Body :: string

definition IsNotFound :: "error \<Rightarrow> bool" where
  "IsNotFound err = (err = ESNotFound)"

section \<open>utils.go\<close>

definition compressionBrotli :: string where "compressionBrotli = ''br''"
definition compressionGzip :: string where "compressionGzip = ''gzip''"
definition compressionDeflate :: string where "compressionDeflate = ''deflate''"
definition compressionIdentity :: string where "compressionIdentity = ''identity''"

definition minCompressionSize :: nat where
  "minCompressionSize = 1024"

definition peerDBMetadataHeaderPrefix :: string where
  "peerDBMetadataHeaderPrefix = ''peerdb-''"

definition allCompressions :: "string list" where
  "allCompressions = [compressionBrotli, compressionGzip, compressionDeflate, compressionIdentity]"

text \<open>
  The service, with the fields the handlers read. \<open>path\<close> is the method \<^verbatim>\<open>s.path\<close>
  (the router's reverse lookup; its arguments are the route name, the parameters and
  the encoded query).
\<close>

record Service =
  ESClient :: "PerformRequestOptions \<Rightarrow> error + Response"
  Development :: string
  path :: "string \<Rightarrow> (string \<times> string list) list \<Rightarrow> string \<Rightarrow> error + string"

text \<open>
  What the handlers use of other packages and of package-level tables built elsewhere:
  \<^verbatim>\<open>identifier.Valid\<close>, \<^verbatim>\<open>getSearch\<close> (only the ID of the search it returns is
  used), \<^verbatim>\<open>url.Values.Encode\<close>, the precompressed files and their ETags,
  \<^verbatim>\<open>mime.TypeByExtension\<close> and \<^verbatim>\<open>filepath.Ext\<close>, and the three codecs (the bytes
  written through the codec's writer, or its write or close error).
\<close>

record Packages =
  identifier_Valid :: "string \<Rightarrow> bool"
  getSearch :: "Header \<Rightarrow> string option"
  Values_Encode :: "(string \<times> string list) list \<Rightarrow> string"
  compressedFiles :: "string \<Rightarrow> string \<rightharpoonup> string"
  compressedFilesEtags :: "string \<Rightarrow> string \<rightharpoonup> string"
  mime_TypeByExtension :: "string \<Rightarrow> string"
  filepath_Ext :: "string \<Rightarrow> string"
  brotli_Writer :: "string \<Rightarrow> error + string"
  gzip_Writer :: "string \<Rightarrow> error + string"
  flate_Writer :: "string \<Rightarrow> error + string"

text \<open>
  \<^verbatim>\<open>gddo.NegotiateContentEncoding\<close> (github.com/golang/gddo/httputil): for every offer
  in order and every spec in order, an offer that a spec names (or that \<open>*\<close> names) with
  a strictly better quality than the best so far becomes the best. Without any match the
  answer is \<open>identity\<close>; a best quality of 0 gives the empty string.
\<close>

definition negotiate_spec :: "string \<Rightarrow> string \<times> rat \<Rightarrow> AcceptSpec \<Rightarrow> string \<times> rat" where
  "negotiate_spec offer best spec =
     (if Q spec > snd best \<and> (Value spec = ''*'' \<or> Value spec = offer)
      then (offer, Q spec) else best)"

definition negotiate_offer :: "AcceptSpec list \<Rightarrow> string \<times> rat \<Rightarrow> string \<Rightarrow> string \<times> rat" where
  "negotiate_offer specs best offer = foldl (negotiate_spec offer) best specs"

definition NegotiateContentEncoding :: "Request \<Rightarrow> string list \<Rightarrow> string" where
  "NegotiateContentEncoding r offers =
     (let best = foldl (negotiate_offer (AcceptEncoding r)) (''identity'', -1) offers
      in if snd best = 0 then [] else fst best)"

text \<open>
  \<^verbatim>\<open>internalServerError\<close>: a cancelled or timed-out request context gets no answer;
  any other error gets a 500. (The additions to the request's log context are left
  out here and below.)
\<close>

definition internalServerError :: "ResponseWriter \<Rightarrow> error \<Rightarrow> ResponseWriter" where
  "internalServerError w err =
     (if err = ContextCanceled then w
      else if err = DeadlineExceeded then w
      else http_Error w ''500 internal server error'' 500)"

definition badRequest :: "ResponseWriter \<Rightarrow> error \<Rightarrow> ResponseWriter" where
  "badRequest w err = http_Error w ''400 bad request'' 400"

definition compress :: "Packages \<Rightarrow> string \<Rightarrow> string \<Rightarrow> error + string" where
  "compress P compression data =
     (if compression = compressionBrotli then brotli_Writer P data
      else if compression = compressionGzip then gzip_Writer P data
      else if compression = compressionDeflate then flate_Writer P data
      else if compression = compressionIdentity then Inr data
      else Inl (Err (''unknown compression: '' @ compression)))"

text \<open>
  The loop of \<^verbatim>\<open>writeJSON\<close> over the metadata. \<^verbatim>\<open>metadata\<close> is a Go map, which
  \<^verbatim>\<open>range\<close> visits in an order of its own choosing: the argument here is the list of
  its entries in the order of the visit. Each entry is stored in the response header
  under the prefixed, canonicalised key, and its key and its values are written to the
  hash.
\<close>

definition writeJSON_metadata ::
  "ResponseWriter \<times> string \<Rightarrow> string \<times> string list \<Rightarrow> ResponseWriter \<times> string" where
  "writeJSON_metadata wh kv =
     (let w = fst wh; hash = snd wh; key = fst kv; value = snd kv;
          w = w\<lparr>Header :=
                  (Header w)(CanonicalMIMEHeaderKey (peerDBMetadataHeaderPrefix @ key) \<mapsto> value)\<rparr>;
          hash = hash_Write hash key;
          hash = foldl hash_Write hash value
      in (w, hash))"

text \<open>
  \<^verbatim>\<open>writeJSON\<close>. \<open>marshal\<close> is \<^verbatim>\<open>x.MarshalWithoutEscapeHTML\<close> (another module) on the
  payload type.
\<close>

definition writeJSON ::
  "Packages \<Rightarrow> ('d \<Rightarrow> error + string) \<Rightarrow> ResponseWriter \<Rightarrow> Request \<Rightarrow> string \<Rightarrow> 'd
     \<Rightarrow> (string \<times> string list) list \<Rightarrow> ResponseWriter" where
  "writeJSON P marshal w req contentEncoding data metadata =
     (case marshal data of
        Inl err \<Rightarrow> internalServerError w err
      | Inr encoded \<Rightarrow>
          (let contentEncoding =
                 (if length encoded \<le> minCompressionSize then compressionIdentity
                  else contentEncoding)
           in case compress P contentEncoding encoded of
                Inl errE \<Rightarrow> internalServerError w errE
              | Inr encoded \<Rightarrow>
                  (let hash = hash_Write sha256_New encoded;
                       wh = foldl writeJSON_metadata (w, hash) metadata;
                       w = fst wh; hash = snd wh;
                       etag = [CHR 0x22] @ RawURLEncoding_EncodeToString (hash_Sum hash) @ [CHR 0x22];
                       h = Header_Set (Header w) ''Content-Type'' ''application/json'';
                       h = (if contentEncoding \<noteq> compressionIdentity
                            then Header_Set h ''Content-Encoding'' contentEncoding
                            else Header_Set h ''Content-Length'' (Itoa (int (length encoded))));
                       h = Header_Set h ''Cache-Control'' ''no-cache'';
                       h = Header_Add h ''Vary'' ''Accept-Encoding'';
                       h = Header_Set h ''Etag'' etag;
                       h = Header_Set h ''X-Content-Type-Options'' ''nosniff''
                   in http_ServeContent (w\<lparr>Header := h\<rparr>) encoded)))"

text \<open>\<^verbatim>\<open>staticFile\<close>: a precompressed file, by path and negotiated encoding.\<close>

definition errNoData :: "string \<Rightarrow> string \<Rightarrow> error" where
  "errNoData contentEncoding p =
     Err (''no data for compression '' @ contentEncoding @ '' and file ''
          @ [CHR 0x22] @ p @ [CHR 0x22])"

definition errNoEtag :: "string \<Rightarrow> string \<Rightarrow> error" where
  "errNoEtag contentEncoding p =
     Err (''no etag for compression '' @ contentEncoding @ '' and file ''
          @ [CHR 0x22] @ p @ [CHR 0x22])"

definition staticFile ::
  "Packages \<Rightarrow> ResponseWriter \<Rightarrow> Request \<Rightarrow> string \<Rightarrow> bool \<Rightarrow> ResponseWriter" where
  "staticFile P w req p immutable =
     (let contentEncoding = NegotiateContentEncoding req allCompressions
      in if contentEncoding = [] then http_Error w ''406 not acceptable'' 406
         else
           (case compressedFiles P contentEncoding p of
              None \<Rightarrow> internalServerError w (errNoData contentEncoding p)
            | Some data \<Rightarrow>
                (case (if length data \<le> minCompressionSize
                       then (case compressedFiles P compressionIdentity p of
                               None \<Rightarrow> None
                             | Some data' \<Rightarrow> Some (compressionIdentity, data'))
                       else Some (contentEncoding, data)) of
                   None \<Rightarrow> internalServerError w (errNoData compressionIdentity p)
                 | Some (contentEncoding, data) \<Rightarrow>
                     (case compressedFilesEtags P contentEncoding p of
                        None \<Rightarrow> internalServerError w (errNoEtag contentEncoding p)
                      | Some etag \<Rightarrow>
                          (let contentType = mime_TypeByExtension P (filepath_Ext P p)
                           in if contentType = []
                              then internalServerError w
                                     (Err (''unable to determine content type for file ''
                                            @ [CHR 0x22] @ p @ [CHR 0x22]))
                              else
                                (let h = Header_Set (Header w) ''Content-Type'' contentType;
                                     h = (if contentEncoding \<noteq> compressionIdentity
                                          then Header_Set h ''Content-Encoding'' contentEncoding
                                          else Header_Set h ''Content-Length''
                                                 (Itoa (int (length data))));
                                     h = (if immutable
                                          then Header_Set h ''Cache-Control''
                                  ''public,max-age=31536000,immutable,stale-while-revalidate=86400''
                                          else Header_Set h ''Cache-Control'' ''no-cache'');
                                     h = Header_Add h ''Vary'' ''Accept-Encoding'';
                                     h = Header_Set h ''Etag'' etag;
                                     h = Header_Set h ''X-Content-Type-Options'' ''nosniff''
                                 in http_ServeContent (w\<lparr>Header := h\<rparr>) data))))))"

definition idFromRequest :: "Request \<Rightarrow> string" where
  "idFromRequest req = (case RequestID req of Some v \<Rightarrow> v | None \<Rightarrow> [])"

section \<open>The document handlers\<close>

text \<open>
  \<^verbatim>\<open>httprouter.Params\<close> is a list of key/value pairs; \<^verbatim>\<open>ByName\<close> returns the value
  of the first pair with the key, or the empty string.
\<close>

fun ByName :: "(string \<times> string) list \<Rightarrow> string \<Rightarrow> string" where
  "ByName [] name = []"
| "ByName ((k, v) # ps) name = (if k = name then v else ByName ps name)"

text \<open>
  The handlers' local variable \<^verbatim>\<open>id\<close> is \<open>ident\<close> here. A handler's result: the
  response writer as the handler leaves it, and the requests it made to the index
  engine, in order.
\<close>

record Handled =
  Writer :: ResponseWriter
  Calls :: "PerformRequestOptions list"

text \<open>\<^verbatim>\<open>DocumentGetGetHTML\<close>.\<close>

definition DocumentGetGetHTML ::
  "Packages \<Rightarrow> Service \<Rightarrow> ResponseWriter \<Rightarrow> Request \<Rightarrow> (string \<times> string) list \<Rightarrow> Handled" where
  "DocumentGetGetHTML P s w req ps =
     (let ident = ByName ps ''id''
      in if \<not> identifier_Valid P ident
         then \<lparr>Writer = http_Error w ''400 bad request'' 400, Calls = []\<rparr>
         else
           (let redirect =
                  (if Values_Has (Form req) ''s'' \<or> Values_Has (Form req) ''q''
                   then (case getSearch P (Form req) of
                           None \<Rightarrow> Some (path s ''DocumentGet'' [(''id'', [ident])] [])
                         | Some shID \<Rightarrow>
                             (if Values_Has (Form req) ''q''
                              then Some (path s ''DocumentGet'' [(''id'', [ident])]
                                           (Values_Encode P [(''s'', [shID])]))
                              else None))
                   else None)
            in case redirect of
                 Some (Inl err) \<Rightarrow> \<lparr>Writer = internalServerError w err, Calls = []\<rparr>
               | Some (Inr location) \<Rightarrow>
                   \<lparr>Writer = w\<lparr>Header := Header_Set (Header w) ''Location'' location,
                                Sent := Written 303 []\<rparr>,
                    Calls = []\<rparr>
               | None \<Rightarrow>
                   (let headers = Header_Set Map.empty ''X-Opaque-ID'' (idFromRequest req);
                        call = \<lparr>Method = ''HEAD'', Path = ''/docs/_doc/'' @ ident, Headers = headers\<rparr>
                    in case ESClient s call of
                         Inl err \<Rightarrow>
                           (if IsNotFound err
                            then \<lparr>Writer = http_NotFound w, Calls = [call]\<rparr>
                            else \<lparr>Writer = internalServerError w err, Calls = [call]\<rparr>)
                       | Inr resp \<Rightarrow>
                           (if Development s \<noteq> []
                            then \<lparr>Writer = w\<lparr>Sent := Proxied\<rparr>, Calls = [call]\<rparr>
                            else \<lparr>Writer = staticFile P w req ''/index.html'' False,
                                  Calls = [call]\<rparr>))))"

text \<open>\<^verbatim>\<open>DocumentGetGetJSON\<close>.\<close>

definition DocumentGetGetJSON ::
  "Packages \<Rightarrow> Service \<Rightarrow> ResponseWriter \<Rightarrow> Request \<Rightarrow> (string \<times> string) list \<Rightarrow> Handled" where
  "DocumentGetGetJSON P s w req ps =
     (let contentEncoding =
            NegotiateContentEncoding req [compressionGzip, compressionDeflate, compressionIdentity]
      in if contentEncoding = []
         then \<lparr>Writer = http_Error w ''406 not acceptable'' 406, Calls = []\<rparr>
         else
           (let ident = ByName ps ''id''
            in if \<not> identifier_Valid P ident
               then \<lparr>Writer = http_Error w ''400 bad request'' 400, Calls = []\<rparr>
               else
                 (let headers = Header_Set Map.empty ''Accept-Encoding'' contentEncoding;
                      headers = Header_Set headers ''X-Opaque-ID'' (idFromRequest req);
                      call = \<lparr>Method = ''GET'', Path = ''/docs/_source/'' @ ident,
                              Headers = headers\<rparr>
                  in case ESClient s call of
                       Inl err \<Rightarrow>
                         (if IsNotFound err
                          then \<lparr>Writer = http_NotFound w, Calls = [call]\<rparr>
                          else \<lparr>Writer = internalServerError w err, Calls = [call]\<rparr>)
                     | Inr resp \<Rightarrow>
                         (let hash = Sum256 (Body resp);
                              etag = [CHR 0x22] @ RawURLEncoding_EncodeToString hash @ [CHR 0x22];
                              h = Header_Set (Header w) ''Content-Type''
                                    (Header_Get (RespHeader resp) ''Content-Type'');
                              h = (if contentEncoding \<noteq> compressionIdentity
                                   then Header_Set h ''Content-Encoding'' contentEncoding
                                   else Header_Set h ''Content-Length''
                                          (Header_Get (RespHeader resp) ''Content-Length''));
                              h = Header_Set h ''Cache-Control'' ''no-cache'';
                              h = Header_Add h ''Vary'' ''Accept-Encoding'';
                              h = Header_Set h ''Etag'' etag;
                              h = Header_Set h ''X-Content-Type-Options'' ''nosniff''
                          in \<lparr>Writer = http_ServeContent (w\<lparr>Header := h\<rparr>) (Body resp),
                               Calls = [call]\<rparr>))))"

text \<open>
  The bytes that the metadata loop of \<^verbatim>\<open>writeJSON\<close> writes to the hash, for the
  entries in the order of the visit: each key, followed by each of its values, with
  nothing in between.
\<close>

definition metadata_bytes :: "(string \<times> string list) list \<Rightarrow> string" where
  "metadata_bytes metadata = concat (map (\<lambda>kv. fst kv @ concat (snd kv)) metadata)"

section \<open>properties.go\<close>

subsection \<open>Documents and claims\<close>

text \<open>
  The types are declared elsewhere in the package; these are the fields the bootstrap
  sets or reads. A \<^verbatim>\<open>Name\<close> and a translatable string are maps from a language to
  a string, written as the list of their entries. Scores and confidences are
  \<^verbatim>\<open>float64\<close>; the bootstrap only stores the constants 0.0 and 1.0. Go's promoted
  fields of an embedded struct are the fields of the extended record. Field names that
  several structs share carry a prefix here: \<open>RefID\<close> is \<^verbatim>\<open>DocumentReference.ID\<close>,
  \<open>ClaimID\<close> is \<^verbatim>\<open>CoreClaim.ID\<close>, \<open>TextProp\<close> and \<open>RelationProp\<close> are the
  \<^verbatim>\<open>Prop\<close> of a text and of a relation claim.
\<close>

type_synonym Name = "(string \<times> string) list"

record DocumentReference =
  RefID :: string
  RefName :: Name
  RefScore :: rat
  RefScores :: "(string \<times> rat) list"

record CoreClaim =
  ClaimID :: string
  Confidence :: rat

record TextClaim = CoreClaim +
  TextProp :: DocumentReference
  Plain :: "(string \<times> string) list"
  HTML :: "(string \<times> string) list"

record RelationClaim = CoreClaim +
  RelationProp :: DocumentReference
  To :: DocumentReference

text \<open>
  \<^verbatim>\<open>DocumentClaimTypes\<close> with the two buckets of its \<^verbatim>\<open>SimpleClaimTypes\<close> that the
  bootstrap fills; every other bucket keeps its zero value in every document built here.
\<close>

record DocumentClaimTypes =
  Text :: "TextClaim list"
  Relation :: "RelationClaim list"

record CoreDocument =
  ID :: string
  Name :: Name
  Score :: rat
  Scores :: "(string \<times> rat) list"

text \<open>\<^verbatim>\<open>Active\<close> is a pointer: \<open>None\<close> is nil.\<close>

record Document = CoreDocument +
  Mnemonic :: string
  Active :: "DocumentClaimTypes option"

subsection \<open>The built-in properties\<close>

definition claimTypes :: "string list" where
  "claimTypes =
     [''identifier'', ''reference'',
      ''text'', ''string'', ''label'', ''amount'', ''amount range'', ''enumeration'', ''relation'',
      ''time'', ''time range'', ''duration'', ''duration range'',
      ''file'', ''list'']"

record BuiltinProperty =
  PName :: string
  DescriptionPlain :: string
  DescriptionHTML :: string
  Is :: "string list"

definition builtinProperties :: "BuiltinProperty list" where
  \<open>builtinProperties =
     [\<lparr>PName = ''is'',
       DescriptionPlain = ''unspecified type relation between two entities'',
       DescriptionHTML = ''unspecified type relation between two entities'',
       Is = []\<rparr>,
      \<lparr>PName = ''property'',
       DescriptionPlain = ''the entity is a property'',
       DescriptionHTML = ''the entity is a property'',
       Is = []\<rparr>,
      \<lparr>PName = ''item'',
       DescriptionPlain = ''the entity is an item'',
       DescriptionHTML = ''the entity is an item'',
       Is = []\<rparr>,
      \<lparr>PName = ''claim type'',
       DescriptionPlain = ''the property maps to a supported claim type'',
       DescriptionHTML = ''the property maps to a supported claim type'',
       Is = []\<rparr>,
      \<lparr>PName = ''description'',
       DescriptionPlain = ''description'',
       DescriptionHTML = ''description'',
       Is = [''"text" claim type'']\<rparr>,
      \<lparr>PName = ''Wikidata property id'',
       DescriptionPlain = ''Wikidata property identifier'',
       DescriptionHTML = ''<a href="https://www.wikidata.org/wiki/Wikidata:Main_Page">Wikidata</a> property <a href="https://www.wikidata.org/wiki/Wikidata:Identifiers">identifier</a>'',
       Is = [''"identifier" claim type'']\<rparr>,
      \<lparr>PName = ''Wikidata item id'',
       DescriptionPlain = ''Wikidata item identifier'',
       DescriptionHTML = ''<a href="https://www.wikidata.org/wiki/Wikidata:Main_Page">Wikidata</a> item <a href="https://www.wikidata.org/wiki/Wikidata:Identifiers">identifier</a>'',
       Is = [''"identifier" claim type'']\<rparr>,
      \<lparr>PName = ''Wikidata property page'',
       DescriptionPlain = ''Wikidata property page'',
       DescriptionHTML = ''<a href="https://www.wikidata.org/wiki/Wikidata:Main_Page">Wikidata</a> property page IRI'',
       Is = [''"reference" claim type'']\<rparr>,
      \<lparr>PName = ''Wikidata item page'',
       DescriptionPlain = ''Wikidata item page'',
       DescriptionHTML = ''<a href="https://www.wikidata.org/wiki/Wikidata:Main_Page">Wikidata</a> item page IRI'',
       Is = [''"reference" claim type'']\<rparr>,
      \<lparr>PName = ''English Wikipedia article'',
       DescriptionPlain = ''reference to English Wikipedia article'',
       DescriptionHTML = ''reference to <a href="https://en.wikipedia.org/wiki/Main_Page">English Wikipedia</a> article'',
       Is = [''"reference" claim type'']\<rparr>]\<close>

subsection \<open>Identifiers\<close>

text \<open>
  A UUID is 16 bytes. \<^verbatim>\<open>uuid.NewSHA1\<close> (github.com/google/uuid) and
  \<^verbatim>\<open>identifier.FromUUID\<close> (the package's identifier codec, not among the files
  here) are parameters: any two functions of these types.
\<close>

type_synonym UUID = "128 word"

record IDs =
  uuid_NewSHA1 :: "UUID \<Rightarrow> string \<Rightarrow> UUID"
  identifier_FromUUID :: "UUID \<Rightarrow> string"

definition NameSpaceStandardProperties :: UUID where
  "NameSpaceStandardProperties = 0x34cd10b4573146b8a6dd45444680ca62"

definition getMnemonic :: "string \<Rightarrow> string" where
  "getMnemonic data = ReplaceAll (ReplaceAll (ToUpper data) '' '' ''_'') [CHR 0x22] []"

definition getPropertyID :: "IDs \<Rightarrow> string \<Rightarrow> string" where
  "getPropertyID I mnemonic =
     identifier_FromUUID I (uuid_NewSHA1 I NameSpaceStandardProperties mnemonic)"

definition getPropertyClaimID :: "IDs \<Rightarrow> string \<Rightarrow> string \<Rightarrow> int \<Rightarrow> string" where
  "getPropertyClaimID I propertyMnemonic claimMnemonic i =
     identifier_FromUUID I
       (uuid_NewSHA1 I
          (uuid_NewSHA1 I
             (uuid_NewSHA1 I NameSpaceStandardProperties propertyMnemonic)
             claimMnemonic)
          (Itoa i))"

subsection \<open>The table and the lookup\<close>

text \<open>\<^verbatim>\<open>KnownProperties\<close> is a \<^verbatim>\<open>map[string]Document\<close>, passed and returned.\<close>

type_synonym Properties = "string \<rightharpoonup> Document"

definition GetStandardPropertyReference ::
  "IDs \<Rightarrow> Properties \<Rightarrow> string \<Rightarrow> panic + DocumentReference" where
  "GetStandardPropertyReference I KnownProperties mnemonic =
     (case KnownProperties (getPropertyID I mnemonic) of
        None \<Rightarrow>
          Inl (Panic (''standard property for mnemonic '' @ [CHR 0x22] @ mnemonic @ [CHR 0x22]
                      @ '' cannot be found''))
      | Some property \<Rightarrow>
          Inr \<lparr>RefID = ID property, RefName = Name property,
               RefScore = Score property, RefScores = Scores property\<rparr>)"

subsection \<open>populateStandardProperties\<close>

text \<open>The three references that the claims of every built document point to.\<close>

definition descriptionReference :: "IDs \<Rightarrow> DocumentReference" where
  "descriptionReference I =
     \<lparr>RefID = getPropertyID I ''DESCRIPTION'', RefName = [(''en'', ''description'')],
      RefScore = 0, RefScores = []\<rparr>"

definition isReference :: "IDs \<Rightarrow> DocumentReference" where
  "isReference I =
     \<lparr>RefID = getPropertyID I ''IS'', RefName = [(''en'', ''is'')],
      RefScore = 0, RefScores = []\<rparr>"

definition propertyReference :: "IDs \<Rightarrow> DocumentReference" where
  "propertyReference I =
     \<lparr>RefID = getPropertyID I ''PROPERTY'', RefName = [(''en'', ''property'')],
      RefScore = 0, RefScores = []\<rparr>"

text \<open>The document literal stored for a built-in property.\<close>

definition builtinDocument :: "IDs \<Rightarrow> BuiltinProperty \<Rightarrow> string \<Rightarrow> string \<Rightarrow> Document" where
  "builtinDocument I builtinProperty mnemonic ident =
     \<lparr>ID = ident, Name = [(''en'', PName builtinProperty)], Score = 0, Scores = [],
      Mnemonic = mnemonic,
      Active = Some
        \<lparr>Text =
           [\<lparr>ClaimID = getPropertyClaimID I mnemonic ''DESCRIPTION'' 0, Confidence = 1,
             TextProp = descriptionReference I,
             Plain = [(''en'', DescriptionPlain builtinProperty)],
             HTML = [(''en'', DescriptionHTML builtinProperty)]\<rparr>],
         Relation =
           [\<lparr>ClaimID = getPropertyClaimID I mnemonic ''PROPERTY'' 0, Confidence = 1,
             RelationProp = isReference I,
             To = propertyReference I\<rparr>]\<rparr>\<rparr>"

text \<open>The relation claim appended for one entry of \<^verbatim>\<open>builtinProperty.Is\<close>.\<close>

definition isRelationClaim :: "IDs \<Rightarrow> string \<Rightarrow> string \<Rightarrow> RelationClaim" where
  "isRelationClaim I mnemonic isClaim =
     (let isClaimMnemonic = getMnemonic isClaim
      in \<lparr>ClaimID = getPropertyClaimID I mnemonic isClaimMnemonic 0, Confidence = 1,
           RelationProp = isReference I,
           To = \<lparr>RefID = getPropertyID I isClaimMnemonic, RefName = [(''en'', isClaim)],
                 RefScore = 0, RefScores = []\<rparr>\<rparr>)"

text \<open>The document literal stored for a claim type.\<close>

definition claimTypeName :: "string \<Rightarrow> string" where
  "claimTypeName claimType = [CHR 0x22] @ claimType @ [CHR 0x22] @ '' claim type''"

definition claimTypeDescription :: "string \<Rightarrow> string" where
  "claimTypeDescription claimType =
     ''the property is useful with the '' @ [CHR 0x22] @ claimType @ [CHR 0x22] @ '' claim type''"

definition claimTypeDocument ::
  "IDs \<Rightarrow> string \<Rightarrow> string \<Rightarrow> string \<Rightarrow> string \<Rightarrow> Document" where
  "claimTypeDocument I name mnemonic ident description =
     \<lparr>ID = ident, Name = [(''en'', name)], Score = 0, Scores = [],
      Mnemonic = mnemonic,
      Active = Some
        \<lparr>Text =
           [\<lparr>ClaimID = getPropertyClaimID I mnemonic ''DESCRIPTION'' 0, Confidence = 1,
             TextProp = descriptionReference I,
             Plain = [(''en'', description)],
             HTML = [(''en'', EscapeString description)]\<rparr>],
         Relation =
           [\<lparr>ClaimID = getPropertyClaimID I mnemonic ''PROPERTY'' 0, Confidence = 1,
             RelationProp = isReference I,
             To = propertyReference I\<rparr>,
            \<lparr>ClaimID = getPropertyClaimID I mnemonic ''CLAIM_TYPE'' 0, Confidence = 1,
             RelationProp = isReference I,
             To = \<lparr>RefID = getPropertyID I ''CLAIM_TYPE'',
                   RefName = [(''en'', ''claim type'')],
                   RefScore = 0, RefScores = []\<rparr>\<rparr>]\<rparr>\<rparr>"

text \<open>
  \<^verbatim>\<open>simple := &KnownProperties[id].Active.SimpleClaimTypes\<close> and the appends through
  it. The map holds the document by value and the document holds \<^verbatim>\<open>Active\<close> by
  pointer, so an append through \<open>simple\<close> changes the claims of the document stored
  under \<open>ident\<close>; no other store to the map happens while \<open>simple\<close> is in use. Taking
  the address through a nil \<^verbatim>\<open>Active\<close> (also that of a missing entry's zero
  document) panics.
\<close>

definition nilDereference :: panic where
  "nilDereference = Panic ''invalid memory address or nil pointer dereference''"

definition simpleClaimTypes :: "Properties \<Rightarrow> string \<Rightarrow> panic + DocumentClaimTypes" where
  "simpleClaimTypes KnownProperties ident =
     (case KnownProperties ident of
        None \<Rightarrow> Inl nilDereference
      | Some d \<Rightarrow> (case Active d of None \<Rightarrow> Inl nilDereference | Some simple \<Rightarrow> Inr simple))"

definition appendRelation :: "Properties \<Rightarrow> string \<Rightarrow> RelationClaim \<Rightarrow> panic + Properties" where
  "appendRelation KnownProperties ident claim =
     (case KnownProperties ident of
        None \<Rightarrow> Inl nilDereference
      | Some d \<Rightarrow>
          (case Active d of
             None \<Rightarrow> Inl nilDereference
           | Some simple \<Rightarrow>
               Inr (KnownProperties
                      (ident \<mapsto> d\<lparr>Active := Some (simple\<lparr>Relation := Relation simple @ [claim]\<rparr>)\<rparr>))))"

text \<open>The loop over \<^verbatim>\<open>builtinProperty.Is\<close>.\<close>

fun populate_Is :: "IDs \<Rightarrow> string \<Rightarrow> string \<Rightarrow> string list \<Rightarrow> Properties \<Rightarrow> panic + Properties" where
  "populate_Is I mnemonic ident [] KnownProperties = Inr KnownProperties"
| "populate_Is I mnemonic ident (isClaim # rest) KnownProperties =
     (case appendRelation KnownProperties ident (isRelationClaim I mnemonic isClaim) of
        Inl p \<Rightarrow> Inl p
      | Inr KnownProperties' \<Rightarrow> populate_Is I mnemonic ident rest KnownProperties')"

text \<open>The loop over \<^verbatim>\<open>claimTypes\<close>, which is inside the loop over the properties.\<close>

fun populate_claimTypes :: "IDs \<Rightarrow> string list \<Rightarrow> Properties \<Rightarrow> Properties" where
  "populate_claimTypes I [] KnownProperties = KnownProperties"
| "populate_claimTypes I (claimType # rest) KnownProperties =
     (let name = claimTypeName claimType;
          mnemonic = getMnemonic name;
          ident = getPropertyID I mnemonic;
          description = claimTypeDescription claimType
      in populate_claimTypes I rest
           (KnownProperties (ident \<mapsto> claimTypeDocument I name mnemonic ident description)))"

text \<open>The loop over \<^verbatim>\<open>builtinProperties\<close>.\<close>

fun populate_builtinProperties ::
  "IDs \<Rightarrow> BuiltinProperty list \<Rightarrow> Properties \<Rightarrow> panic + Properties" where
  "populate_builtinProperties I [] KnownProperties = Inr KnownProperties"
| "populate_builtinProperties I (builtinProperty # rest) KnownProperties =
     (let mnemonic = getMnemonic (PName builtinProperty);
          ident = getPropertyID I mnemonic;
          KnownProperties =
            KnownProperties (ident \<mapsto> builtinDocument I builtinProperty mnemonic ident)
      in case simpleClaimTypes KnownProperties ident of
           Inl p \<Rightarrow> Inl p
         | Inr simple \<Rightarrow>
             (case populate_Is I mnemonic ident (Is builtinProperty) KnownProperties of
                Inl p \<Rightarrow> Inl p
              | Inr KnownProperties \<Rightarrow>
                  populate_builtinProperties I rest
                    (populate_claimTypes I claimTypes KnownProperties)))"

definition populateStandardProperties :: "IDs \<Rightarrow> Properties \<Rightarrow> panic + Properties" where
  "populateStandardProperties I KnownProperties =
     populate_builtinProperties I builtinProperties KnownProperties"

text \<open>
  \<^verbatim>\<open>init\<close> runs the bootstrap on the empty map that \<^verbatim>\<open>KnownProperties\<close> is
  initialised with.
\<close>

definition init :: "IDs \<Rightarrow> panic + Properties" where
  "init I = populateStandardProperties I Map.empty"

text \<open>
  The mnemonics registered by the bootstrap: those of the built-in properties and
  those of the claim-type documents.
\<close>

definition registeredMnemonics :: "string list" where
  "registeredMnemonics =
     map (\<lambda>builtinProperty. getMnemonic (PName builtinProperty)) builtinProperties
     @ map (\<lambda>claimType. getMnemonic (claimTypeName claimType)) claimTypes"

text \<open>
  What the specification asks of a built-in property document: exactly one text claim,
  with confidence 1.0 and the property \<open>description\<close>, which holds the description
  that the tables give for the document's name; and a relation claim whose property is
  \<open>is\<close> and whose target is \<open>property\<close>. A claim-type marker has a relation claim
  to \<open>claim type\<close> as well.
\<close>

definition isRelationTo :: "IDs \<Rightarrow> string \<Rightarrow> string \<Rightarrow> RelationClaim \<Rightarrow> bool" where
  "isRelationTo I targetMnemonic targetName claim =
     (RelationProp claim = isReference I
      \<and> RefID (To claim) = getPropertyID I targetMnemonic
      \<and> RefName (To claim) = [(''en'', targetName)])"

definition describedAs :: "Document \<Rightarrow> TextClaim \<Rightarrow> string \<Rightarrow> string \<Rightarrow> string \<Rightarrow> bool" where
  "describedAs d description name plain html =
     (Name d = [(''en'', name)] \<and> Plain description = [(''en'', plain)]
      \<and> HTML description = [(''en'', html)])"

definition ownDescription :: "Document \<Rightarrow> TextClaim \<Rightarrow> bool" where
  "ownDescription d description =
     (list_ex (\<lambda>builtinProperty.
                 describedAs d description (PName builtinProperty)
                   (DescriptionPlain builtinProperty) (DescriptionHTML builtinProperty))
        builtinProperties
      \<or> list_ex (\<lambda>claimType.
                 describedAs d description (claimTypeName claimType)
                   (claimTypeDescription claimType)
                   (EscapeString (claimTypeDescription claimType)))
          claimTypes)"

definition propertyDocument :: "IDs \<Rightarrow> Document \<Rightarrow> bool" where
  "propertyDocument I d =
     (case Active d of
        None \<Rightarrow> False
      | Some claims \<Rightarrow>
          (case Text claims of
             [description] \<Rightarrow>
               Confidence description = 1 \<and> TextProp description = descriptionReference I
               \<and> ownDescription d description
               \<and> list_ex (isRelationTo I ''PROPERTY'' ''property'') (Relation claims)
           | _ \<Rightarrow> False))"

definition claimTypeMarker :: "IDs \<Rightarrow> Document \<Rightarrow> bool" where
  "claimTypeMarker I d =
     (propertyDocument I d
      \<and> (case Active d of
            None \<Rightarrow> False
          | Some claims \<Rightarrow> list_ex (isRelationTo I ''CLAIM_TYPE'' ''claim type'') (Relation claims)))"

text \<open>
  The identifier a mnemonic is stored under, and the two kinds of document as the
  bootstrap leaves them in the table: a built-in property's document with the relation
  claims of its \<^verbatim>\<open>Is\<close> list appended, and a claim type's document.
\<close>

definition builtinPropertyID :: "IDs \<Rightarrow> BuiltinProperty \<Rightarrow> string" where
  "builtinPropertyID I builtinProperty = getPropertyID I (getMnemonic (PName builtinProperty))"

definition claimTypeID :: "IDs \<Rightarrow> string \<Rightarrow> string" where
  "claimTypeID I claimType = getPropertyID I (getMnemonic (claimTypeName claimType))"

definition storedBuiltinDocument :: "IDs \<Rightarrow> BuiltinProperty \<Rightarrow> Document" where
  "storedBuiltinDocument I builtinProperty =
     (let mnemonic = getMnemonic (PName builtinProperty);
          d = builtinDocument I builtinProperty mnemonic (getPropertyID I mnemonic)
      in d\<lparr>Active :=
             map_option
               (\<lambda>simple. simple\<lparr>Relation := Relation simple
                                     @ map (isRelationClaim I mnemonic) (Is builtinProperty)\<rparr>)
               (Active d)\<rparr>)"

definition storedClaimTypeDocument :: "IDs \<Rightarrow> string \<Rightarrow> Document" where
  "storedClaimTypeDocument I claimType =
     claimTypeDocument I (claimTypeName claimType) (getMnemonic (claimTypeName claimType))
       (claimTypeID I claimType) (claimTypeDescription claimType)"

text \<open>The table after \<open>init\<close> (empty, had \<open>init\<close> panicked).\<close>

definition bootstrapped :: "IDs \<Rightarrow> Properties" where
  "bootstrapped I = (case init I of Inl p \<Rightarrow> Map.empty | Inr KnownProperties \<Rightarrow> KnownProperties)"

section \<open>A stub backend and example requests\<close>

text \<open>
  The scenarios of the specification run against a stub backend. The stub knows one
  document, \<^verbatim>\<open>{"a":1}\<close>, and honours the \<^verbatim>\<open>Accept-Encoding\<close> of the request it
  receives: asked for \<open>gzip\<close>, it answers with the gzip stream of the document, and
  otherwise with the document itself.
\<close>

definition exampleID :: string where
  "exampleID = ''CAfaL1ZZs6L4uyFdrJZ2wN''"

definition exampleDocument :: string where
  \<open>exampleDocument = ''{"a":1}''\<close>

definition exampleDocumentGzip :: string where
  "exampleDocumentGzip =
     map char_of [31, 139, 8, 0, 0, 0, 0, 0, 0, 255, 171, 86, 74, 84, 178, 50, 172, 5, 0,
                  175, 172, 27, 86, 7, 0, 0, 0 :: nat]"

definition stubESClient :: "PerformRequestOptions \<Rightarrow> error + Response" where
  "stubESClient call =
     (if Path call = ''/docs/_source/'' @ exampleID \<or> Path call = ''/docs/_doc/'' @ exampleID
      then (if Header_Get (Headers call) ''Accept-Encoding'' = ''gzip''
            then Inr \<lparr>RespHeader = [''Content-Type'' \<mapsto> [''application/json''],
                                    ''Content-Encoding'' \<mapsto> [''gzip'']],
                      Body = exampleDocumentGzip\<rparr>
            else Inr \<lparr>RespHeader = [''Content-Type'' \<mapsto> [''application/json''],
                                    ''Content-Length'' \<mapsto> [''7'']],
                      Body = exampleDocument\<rparr>)
      else Inl ESNotFound)"

definition stubService :: Service where
  "stubService =
     \<lparr>ESClient = stubESClient, Development = [],
      path = (\<lambda>name params query. Inr (''/d/'' @ concat (concat (map snd params))))\<rparr>"

text \<open>
  The stub's packages: an identifier is valid when it has 22 characters; there are no
  searches and no static files; the stub codecs tag their input.
\<close>

definition stubPackages :: Packages where
  "stubPackages =
     \<lparr>identifier_Valid = (\<lambda>s. length s = 22),
      getSearch = (\<lambda>form. None),
      Values_Encode = (\<lambda>vs. []),
      compressedFiles = (\<lambda>encoding. Map.empty),
      compressedFilesEtags = (\<lambda>encoding. Map.empty),
      mime_TypeByExtension = (\<lambda>ext. []),
      filepath_Ext = (\<lambda>p. []),
      brotli_Writer = (\<lambda>data. Inr (''br:'' @ data)),
      gzip_Writer = (\<lambda>data. Inr (''gzip:'' @ data)),
      flate_Writer = (\<lambda>data. Inr (''deflate:'' @ data))\<rparr>"

definition newResponseWriter :: ResponseWriter where
  "newResponseWriter = \<lparr>Header = Map.empty, Sent = NotWritten\<rparr>"

text \<open>A request with the given parsed \<^verbatim>\<open>Accept-Encoding\<close> header and nothing else.\<close>

definition requestAccepting :: "AcceptSpec list \<Rightarrow> Request" where
  "requestAccepting specs =
     \<lparr>AcceptEncoding = specs, Form = Map.empty, URLPath = ''/d/'' @ exampleID,
      RequestID = Some ''r1''\<rparr>"

text \<open>
  An example derivation of identifiers for the scenarios: a polynomial hash in the
  place of SHA-1, and the 128 binary digits in the place of the identifier codec.
\<close>

definition exampleIDs :: IDs where
  "exampleIDs =
     \<lparr>uuid_NewSHA1 = (\<lambda>ns data. foldl (\<lambda>h c. h * 257 + of_nat (byte c)) ns data),
      identifier_FromUUID =
        (\<lambda>u. map (\<lambda>n. if bit u n then CHR ''1'' else CHR ''0'') (rev [0..<128]))\<rparr>"

section \<open>Certificate manager: results\<close>

lemma GetCertificate_unlocked:
  "mu c = Unlocked \<Longrightarrow> GetCertificate c = Some (certificate c, c)"
  by (simp add: GetCertificate_def GetCertificate_ops_def)

text \<open>
  C9. When the key pair fails to load, \<open>reloadCertificate\<close> returns the error and leaves
  the manager as it was, so \<open>GetCertificate\<close> afterwards returns what it returned
  before. Whatever the loader answers, the field is stored only while the write lock is
  held, and only the certificate of a successful load is ever stored.
\<close>

theorem reloadCertificate_failure_keeps_certificate:
  assumes "mu c = Unlocked"
  shows "(LoadX509KeyPair (CertFile c) (KeyFile c) = Inl err \<longrightarrow>
            reloadCertificate LoadX509KeyPair c = Some (Some err, c) \<and>
            GetCertificate c = Some (certificate c, c))
       \<and> stores_locked False (reloadCertificate_ops LoadX509KeyPair c)
       \<and> (\<forall>cert. Store cert \<in> set (reloadCertificate_ops LoadX509KeyPair c) \<longrightarrow>
            LoadX509KeyPair (CertFile c) (KeyFile c) = Inr cert)"
  using assms
  by (auto simp: reloadCertificate_def reloadCertificate_ops_def GetCertificate_unlocked
           split: sum.splits)

text \<open>
  The scenario of the specification: a first reload succeeds, a second fails to read
  the key files; the certificate of the first is still the one served.
\<close>

theorem reloadCertificate_failure_keeps_certificate_witness:
  "reloadCertificate (\<lambda>cf kf. Inr ''cert-1'')
      \<lparr>CertFile = ''tls.crt'', KeyFile = ''tls.key'', certificate = None, mu = Unlocked\<rparr>
    = Some (None, \<lparr>CertFile = ''tls.crt'', KeyFile = ''tls.key'',
                   certificate = Some ''cert-1'', mu = Unlocked\<rparr>)
   \<and> reloadCertificate (\<lambda>cf kf. Inl (Err ''open tls.key: no such file or directory''))
      \<lparr>CertFile = ''tls.crt'', KeyFile = ''tls.key'', certificate = Some ''cert-1'', mu = Unlocked\<rparr>
    = Some (Some (Err ''open tls.key: no such file or directory''),
            \<lparr>CertFile = ''tls.crt'', KeyFile = ''tls.key'',
             certificate = Some ''cert-1'', mu = Unlocked\<rparr>)
   \<and> GetCertificate
      \<lparr>CertFile = ''tls.crt'', KeyFile = ''tls.key'', certificate = Some ''cert-1'', mu = Unlocked\<rparr>
    = Some (Some ''cert-1'',
            \<lparr>CertFile = ''tls.crt'', KeyFile = ''tls.key'',
             certificate = Some ''cert-1'', mu = Unlocked\<rparr>)"
  using reloadCertificate_failure_keeps_certificate
    [of "\<lparr>CertFile = ''tls.crt'', KeyFile = ''tls.key'', certificate = Some ''cert-1'', mu = Unlocked\<rparr>"
        "\<lambda>cf kf. Inl (Err ''open tls.key: no such file or directory'')"
        "Err ''open tls.key: no such file or directory''"]
  by (simp add: reloadCertificate_def reloadCertificate_ops_def)

section \<open>Header keys\<close>

text \<open>The header names the handlers use, canonicalised.\<close>

lemma canon_Content_Type [simp]:
  "CanonicalMIMEHeaderKey ''Content-Type'' = ''Content-Type''"
  by code_simp

lemma canon_Content_Encoding [simp]:
  "CanonicalMIMEHeaderKey ''Content-Encoding'' = ''Content-Encoding''"
  by code_simp

lemma canon_Content_Length [simp]:
  "CanonicalMIMEHeaderKey ''Content-Length'' = ''Content-Length''"
  by code_simp

lemma canon_Cache_Control [simp]:
  "CanonicalMIMEHeaderKey ''Cache-Control'' = ''Cache-Control''"
  by code_simp

lemma canon_Vary [simp]: "CanonicalMIMEHeaderKey ''Vary'' = ''Vary''"
  by code_simp

lemma canon_Etag [simp]: "CanonicalMIMEHeaderKey ''Etag'' = ''Etag''"
  by code_simp

lemma canon_X_Content_Type_Options [simp]:
  "CanonicalMIMEHeaderKey ''X-Content-Type-Options'' = ''X-Content-Type-Options''"
  by code_simp

lemma canon_Location [simp]: "CanonicalMIMEHeaderKey ''Location'' = ''Location''"
  by code_simp

lemma canon_Accept_Encoding [simp]:
  "CanonicalMIMEHeaderKey ''Accept-Encoding'' = ''Accept-Encoding''"
  by code_simp

lemma canon_X_Opaque_ID [simp]:
  "CanonicalMIMEHeaderKey ''X-Opaque-ID'' = ''X-Opaque-Id''"
  by code_simp

lemma toUpperByte_p: "toUpperByte CHR ''p'' = CHR ''P''"
  by code_simp

text \<open>A prefixed metadata key starts with \<open>p\<close> or \<open>P\<close>, canonicalised or not.\<close>

lemma canon_prefixed:
  "\<exists>r. CanonicalMIMEHeaderKey (peerDBMetadataHeaderPrefix @ key) = CHR ''p'' # r
     \<or> CanonicalMIMEHeaderKey (peerDBMetadataHeaderPrefix @ key) = CHR ''P'' # r"
  by (simp add: CanonicalMIMEHeaderKey_def peerDBMetadataHeaderPrefix_def toUpperByte_p Let_def)

lemma canon_prefixed_neq:
  assumes "k = c # r" and "c \<noteq> CHR ''p''" and "c \<noteq> CHR ''P''"
  shows "CanonicalMIMEHeaderKey (peerDBMetadataHeaderPrefix @ key) \<noteq> k"
  using canon_prefixed [of key] assms by auto

section \<open>The metadata loop\<close>

text \<open>The bytes the metadata loop writes to the hash: every key, then its values.\<close>

lemma foldl_hash_Write: "foldl hash_Write h vs = h @ concat vs"
  by (induction vs arbitrary: h) (simp_all add: hash_Write_def)

lemma writeJSON_metadata_hash:
  "snd (foldl writeJSON_metadata (w, h) md) = h @ concat (map (\<lambda>kv. fst kv @ concat (snd kv)) md)"
  by (induction md arbitrary: w h)
     (simp_all add: writeJSON_metadata_def Let_def foldl_hash_Write hash_Write_def)

lemma writeJSON_metadata_Sent:
  "Sent (fst (foldl writeJSON_metadata (w, h) md)) = Sent w"
  by (induction md arbitrary: w h) (simp_all add: writeJSON_metadata_def Let_def)

lemma writeJSON_metadata_Header:
  assumes "k = c # r" and "c \<noteq> CHR ''p''" and "c \<noteq> CHR ''P''"
  shows "Header (fst (foldl writeJSON_metadata (w, h) md)) k = Header w k"
proof (induction md arbitrary: w h)
  case Nil
  show ?case by simp
next
  case (Cons kv md)
  obtain w' h' where step: "writeJSON_metadata (w, h) kv = (w', h')"
    by (cases "writeJSON_metadata (w, h) kv")
  have "CanonicalMIMEHeaderKey (peerDBMetadataHeaderPrefix @ fst kv) \<noteq> k"
    using assms by (rule canon_prefixed_neq)
  with step have "Header w' k = Header w k"
    by (auto simp: writeJSON_metadata_def Let_def)
  then show ?case
    by (simp add: step Cons.IH)
qed

section \<open>The handlers: results\<close>

lemma http_Error_Sent [simp]:
  "Sent (http_Error w msg code) = Written code (msg @ [char_of (10::nat)])"
  by (simp add: http_Error_def Let_def)

text \<open>
  C6. A request whose identifier fails \<open>identifier.Valid\<close> makes no call to the index
  engine, in either branch. The HTML branch answers 400; the JSON branch answers 400,
  or 406 when no content encoding could be negotiated: a 400-class response both times.
\<close>

theorem invalid_identifier_no_backend_call:
  assumes "\<not> identifier_Valid P (ByName ps ''id'')"
  shows "Calls (DocumentGetGetHTML P s w req ps) = []
       \<and> Sent (Writer (DocumentGetGetHTML P s w req ps))
           = Written 400 (''400 bad request'' @ [char_of (10::nat)])
       \<and> Calls (DocumentGetGetJSON P s w req ps) = []
       \<and> (Sent (Writer (DocumentGetGetJSON P s w req ps))
             = Written 400 (''400 bad request'' @ [char_of (10::nat)])
          \<or> Sent (Writer (DocumentGetGetJSON P s w req ps))
             = Written 406 (''406 not acceptable'' @ [char_of (10::nat)]))"
  using assms by (simp add: DocumentGetGetHTML_def DocumentGetGetJSON_def Let_def)

theorem invalid_identifier_no_backend_call_witness:
  "\<not> identifier_Valid stubPackages (ByName [(''id'', ''not-an-id'')] ''id'')
   \<and> Calls (DocumentGetGetHTML stubPackages stubService newResponseWriter
              (requestAccepting []) [(''id'', ''not-an-id'')]) = []
   \<and> Sent (Writer (DocumentGetGetHTML stubPackages stubService newResponseWriter
              (requestAccepting []) [(''id'', ''not-an-id'')]))
        = Written 400 (''400 bad request'' @ [char_of (10::nat)])
   \<and> Calls (DocumentGetGetJSON stubPackages stubService newResponseWriter
              (requestAccepting []) [(''id'', ''not-an-id'')]) = []"
proof -
  have invalid: "\<not> identifier_Valid stubPackages (ByName [(''id'', ''not-an-id'')] ''id'')"
    by (simp add: stubPackages_def)
  show ?thesis
    using invalid
      invalid_identifier_no_backend_call
        [OF invalid, of stubService newResponseWriter "requestAccepting []"]
    by simp
qed

text \<open>
  C10. In the JSON branch the content encoding is negotiated before the identifier is
  looked at: when no encoding can be negotiated the answer is 406 and no call is made,
  whatever the identifier; a 400 is only ever sent after an encoding was negotiated
  (and the identifier then failed the check).
\<close>

theorem DocumentGetGetJSON_negotiates_before_validation:
  assumes "Sent w = NotWritten"
  shows "(NegotiateContentEncoding req
            [compressionGzip, compressionDeflate, compressionIdentity] = [] \<longrightarrow>
            Sent (Writer (DocumentGetGetJSON P s w req ps))
              = Written 406 (''406 not acceptable'' @ [char_of (10::nat)])
            \<and> Calls (DocumentGetGetJSON P s w req ps) = [])
       \<and> (\<forall>body. Sent (Writer (DocumentGetGetJSON P s w req ps)) = Written 400 body \<longrightarrow>
            NegotiateContentEncoding req
              [compressionGzip, compressionDeflate, compressionIdentity] \<noteq> []
            \<and> \<not> identifier_Valid P (ByName ps ''id''))"
  using assms
  by (auto simp: DocumentGetGetJSON_def Let_def http_NotFound_def http_ServeContent_def
                 internalServerError_def
           split: sum.splits if_splits)

lemma negotiate_refuse_all:
  "NegotiateContentEncoding (requestAccepting [\<lparr>Value = ''*'', Q = 0\<rparr>])
     [compressionGzip, compressionDeflate, compressionIdentity] = []"
  by (simp add: NegotiateContentEncoding_def negotiate_offer_def negotiate_spec_def
                requestAccepting_def Let_def)

theorem DocumentGetGetJSON_negotiates_before_validation_witness:
  "Sent newResponseWriter = NotWritten
   \<and> \<not> identifier_Valid stubPackages (ByName [(''id'', ''not-an-id'')] ''id'')
   \<and> Sent (Writer (DocumentGetGetJSON stubPackages stubService newResponseWriter
              (requestAccepting [\<lparr>Value = ''*'', Q = 0\<rparr>]) [(''id'', ''not-an-id'')]))
        = Written 406 (''406 not acceptable'' @ [char_of (10::nat)])
   \<and> Calls (DocumentGetGetJSON stubPackages stubService newResponseWriter
              (requestAccepting [\<lparr>Value = ''*'', Q = 0\<rparr>]) [(''id'', ''not-an-id'')]) = []"
proof -
  have fresh: "Sent newResponseWriter = NotWritten"
    by (simp add: newResponseWriter_def)
  have invalid: "\<not> identifier_Valid stubPackages (ByName [(''id'', ''not-an-id'')] ''id'')"
    by (simp add: stubPackages_def)
  show ?thesis
    using fresh invalid negotiate_refuse_all
      DocumentGetGetJSON_negotiates_before_validation
        [OF fresh, of "requestAccepting [\<lparr>Value = ''*'', Q = 0\<rparr>]"
           stubPackages stubService "[(''id'', ''not-an-id'')]"]
    by simp
qed

text \<open>
  C5. When the marshalled payload has at most 1024 bytes, \<open>writeJSON\<close> serves it as it
  is, whatever encoding the caller asked for: it hands the marshalled bytes to
  \<open>ServeContent\<close>, sets \<open>Content-Length\<close> to their number and does not set
  \<open>Content-Encoding\<close> (the header keeps the value it had in the response writer
  before the call, none in a new one).
\<close>

theorem writeJSON_small_payload_identity:
  assumes "marshal data = Inr encoded" and "length encoded \<le> 1024"
  shows "Sent (writeJSON P marshal w req contentEncoding data metadata) = ServedContent encoded
       \<and> Header (writeJSON P marshal w req contentEncoding data metadata) ''Content-Encoding''
           = Header w ''Content-Encoding''
       \<and> Header (writeJSON P marshal w req contentEncoding data metadata) ''Content-Length''
           = Some [Itoa (int (length encoded))]"
  using assms
  by (simp add: writeJSON_def minCompressionSize_def compress_def compressionIdentity_def
                compressionBrotli_def compressionGzip_def compressionDeflate_def Let_def
                http_ServeContent_def Header_Set_def Header_Add_def
                writeJSON_metadata_Header [of "''Content-Encoding''"])

lemma Itoa_7: "Itoa 7 = ''7''"
  by code_simp

theorem writeJSON_small_payload_identity_witness:
  "length exampleDocument \<le> 1024
   \<and> Sent (writeJSON stubPackages (\<lambda>d. Inr d) newResponseWriter (requestAccepting [])
              ''gzip'' exampleDocument [(''total'', [''1''])]) = ServedContent exampleDocument
   \<and> Header (writeJSON stubPackages (\<lambda>d. Inr d) newResponseWriter (requestAccepting [])
              ''gzip'' exampleDocument [(''total'', [''1''])]) ''Content-Encoding'' = None
   \<and> Header (writeJSON stubPackages (\<lambda>d. Inr d) newResponseWriter (requestAccepting [])
              ''gzip'' exampleDocument [(''total'', [''1''])]) ''Content-Length'' = Some [''7'']"
proof -
  have small: "length exampleDocument \<le> 1024"
    by (simp add: exampleDocument_def)
  have len: "int (length exampleDocument) = 7"
    by (simp add: exampleDocument_def)
  show ?thesis
    using small
      writeJSON_small_payload_identity
        [of "\<lambda>d. Inr d" exampleDocument exampleDocument stubPackages newResponseWriter
            "requestAccepting []" "''gzip''" "[(''total'', [''1''])]"]
    by (simp add: len Itoa_7 newResponseWriter_def)
qed

text \<open>
  C1, as amended. The JSON branch negotiates the content encoding against the list
  gzip, deflate, identity. When nothing is acceptable it answers
  406 and makes no call. Otherwise every call it makes asks the index engine for the
  negotiated encoding, and a served body is labelled with it: \<open>Content-Encoding\<close> is
  the negotiated encoding, or is not set by the handler when that is identity.
\<close>

theorem DocumentGetGetJSON_negotiation:
  assumes "Sent w = NotWritten"
  shows "(NegotiateContentEncoding req
            [compressionGzip, compressionDeflate, compressionIdentity] = [] \<longrightarrow>
            Sent (Writer (DocumentGetGetJSON P s w req ps))
              = Written 406 (''406 not acceptable'' @ [char_of (10::nat)])
            \<and> Calls (DocumentGetGetJSON P s w req ps) = [])
       \<and> (\<forall>call \<in> set (Calls (DocumentGetGetJSON P s w req ps)).
            Header_Get (Headers call) ''Accept-Encoding''
              = NegotiateContentEncoding req
                  [compressionGzip, compressionDeflate, compressionIdentity])
       \<and> (\<forall>content. Sent (Writer (DocumentGetGetJSON P s w req ps)) = ServedContent content \<longrightarrow>
            Header (Writer (DocumentGetGetJSON P s w req ps)) ''Content-Encoding''
              = (if NegotiateContentEncoding req
                      [compressionGzip, compressionDeflate, compressionIdentity]
                    = compressionIdentity
                 then Header w ''Content-Encoding''
                 else Some [NegotiateContentEncoding req
                              [compressionGzip, compressionDeflate, compressionIdentity]]))"
  using assms
  by (auto simp: DocumentGetGetJSON_def Let_def http_NotFound_def http_ServeContent_def
                 internalServerError_def Header_Get_def Header_Set_def Header_Add_def
           split: sum.splits if_splits)

text \<open>
  A browser's header, \<^verbatim>\<open>Accept-Encoding: gzip, deflate, br\<close>, on the stub: the handler
  negotiates gzip.
\<close>

lemma negotiate_browser:
  "NegotiateContentEncoding
     (requestAccepting [\<lparr>Value = ''gzip'', Q = 1\<rparr>, \<lparr>Value = ''deflate'', Q = 1\<rparr>,
                        \<lparr>Value = ''br'', Q = 1\<rparr>])
     [compressionGzip, compressionDeflate, compressionIdentity] = ''gzip''"
  by (simp add: NegotiateContentEncoding_def negotiate_offer_def negotiate_spec_def
                requestAccepting_def Let_def compressionGzip_def compressionDeflate_def
                compressionIdentity_def)

lemma gzip_not_identity: "''gzip'' \<noteq> compressionIdentity"
  by (simp add: compressionIdentity_def)

lemma stub_served_browser:
  "Sent (Writer (DocumentGetGetJSON stubPackages stubService newResponseWriter
     (requestAccepting [\<lparr>Value = ''gzip'', Q = 1\<rparr>, \<lparr>Value = ''deflate'', Q = 1\<rparr>,
                        \<lparr>Value = ''br'', Q = 1\<rparr>])
     [(''id'', exampleID)])) = ServedContent exampleDocumentGzip"
  by (simp add: DocumentGetGetJSON_def negotiate_browser Let_def stubPackages_def
                stubService_def stubESClient_def exampleID_def Header_Get_def Header_Set_def
                http_ServeContent_def gzip_not_identity)

theorem DocumentGetGetJSON_negotiation_witness:
  "Sent newResponseWriter = NotWritten
   \<and> Sent (Writer (DocumentGetGetJSON stubPackages stubService newResponseWriter
        (requestAccepting [\<lparr>Value = ''gzip'', Q = 1\<rparr>, \<lparr>Value = ''deflate'', Q = 1\<rparr>,
                           \<lparr>Value = ''br'', Q = 1\<rparr>])
        [(''id'', exampleID)])) = ServedContent exampleDocumentGzip
   \<and> Header (Writer (DocumentGetGetJSON stubPackages stubService newResponseWriter
        (requestAccepting [\<lparr>Value = ''gzip'', Q = 1\<rparr>, \<lparr>Value = ''deflate'', Q = 1\<rparr>,
                           \<lparr>Value = ''br'', Q = 1\<rparr>])
        [(''id'', exampleID)])) ''Content-Encoding'' = Some [''gzip'']"
proof -
  have fresh: "Sent newResponseWriter = NotWritten"
    by (simp add: newResponseWriter_def)
  show ?thesis
    using fresh stub_served_browser
      DocumentGetGetJSON_negotiation
        [OF fresh,
         of "requestAccepting [\<lparr>Value = ''gzip'', Q = 1\<rparr>, \<lparr>Value = ''deflate'', Q = 1\<rparr>,
                               \<lparr>Value = ''br'', Q = 1\<rparr>]"
            stubPackages stubService "[(''id'', exampleID)]"]
    by (simp add: negotiate_browser gzip_not_identity)
qed

text \<open>
  C1 as stated fails on the same request: negotiated against brotli, gzip, deflate,
  identity the answer would be brotli, and the handler asks the index engine for gzip.
\<close>

theorem DocumentGetGetJSON_brotli_counterexample:
  "NegotiateContentEncoding
     (requestAccepting [\<lparr>Value = ''gzip'', Q = 1\<rparr>, \<lparr>Value = ''deflate'', Q = 1\<rparr>,
                        \<lparr>Value = ''br'', Q = 1\<rparr>])
     allCompressions = ''br''
   \<and> map (\<lambda>call. Header_Get (Headers call) ''Accept-Encoding'')
        (Calls (DocumentGetGetJSON stubPackages stubService newResponseWriter
          (requestAccepting [\<lparr>Value = ''gzip'', Q = 1\<rparr>, \<lparr>Value = ''deflate'', Q = 1\<rparr>,
                             \<lparr>Value = ''br'', Q = 1\<rparr>])
          [(''id'', exampleID)])) = [''gzip'']"
proof -
  have "NegotiateContentEncoding
     (requestAccepting [\<lparr>Value = ''gzip'', Q = 1\<rparr>, \<lparr>Value = ''deflate'', Q = 1\<rparr>,
                        \<lparr>Value = ''br'', Q = 1\<rparr>])
     allCompressions = ''br''"
    by (simp add: allCompressions_def NegotiateContentEncoding_def negotiate_offer_def
                  negotiate_spec_def requestAccepting_def compressionBrotli_def
                  compressionGzip_def compressionDeflate_def compressionIdentity_def Let_def)
  moreover have "map (\<lambda>call. Header_Get (Headers call) ''Accept-Encoding'')
        (Calls (DocumentGetGetJSON stubPackages stubService newResponseWriter
          (requestAccepting [\<lparr>Value = ''gzip'', Q = 1\<rparr>, \<lparr>Value = ''deflate'', Q = 1\<rparr>,
                             \<lparr>Value = ''br'', Q = 1\<rparr>])
          [(''id'', exampleID)])) = [''gzip'']"
    by (simp add: DocumentGetGetJSON_def negotiate_browser Let_def stubPackages_def
                  stubService_def stubESClient_def exampleID_def Header_Get_def Header_Set_def
                  http_ServeContent_def gzip_not_identity)
  ultimately show ?thesis by simp
qed

section \<open>The ETag of writeJSON\<close>

lemma internalServerError_not_served:
  "Sent w = NotWritten \<Longrightarrow> Sent (internalServerError w err) \<noteq> ServedContent content"
  by (simp add: internalServerError_def)

text \<open>
  When \<open>writeJSON\<close> serves a body, its ETag is the quoted base64url SHA-256 digest of
  the served bytes followed by the metadata bytes, for the entries in the order of the
  visit.
\<close>

lemma writeJSON_etag_value:
  assumes "Sent w = NotWritten"
    and "Sent (writeJSON P marshal w req contentEncoding data metadata) = ServedContent encoded"
  shows "Header (writeJSON P marshal w req contentEncoding data metadata) ''Etag''
           = Some [[CHR 0x22]
                   @ RawURLEncoding_EncodeToString (Sum256 (encoded @ metadata_bytes metadata))
                   @ [CHR 0x22]]"
proof (cases "marshal data")
  case (Inl err)
  with assms show ?thesis
    by (simp add: writeJSON_def internalServerError_not_served)
next
  case (Inr enc0)
  show ?thesis
  proof (cases "compress P (if length enc0 \<le> minCompressionSize then compressionIdentity
                            else contentEncoding) enc0")
    case (Inl errE)
    with assms Inr show ?thesis
      by (simp add: writeJSON_def Let_def internalServerError_not_served)
  next
    case (Inr enc1)
    with assms \<open>marshal data = Inr enc0\<close> show ?thesis
      by (simp add: writeJSON_def Let_def http_ServeContent_def Header_Set_def Header_Add_def
                    writeJSON_metadata_hash metadata_bytes_def hash_Write_def sha256_New_def
                    hash_Sum_def)
  qed
qed

lemma canon_peerdb_next: "CanonicalMIMEHeaderKey ''peerdb-next'' = ''Peerdb-Next''"
  by code_simp

lemma writeJSON_example:
  "writeJSON stubPackages (\<lambda>d. Inr d) newResponseWriter (requestAccepting [])
     ''gzip'' exampleDocument [(''next'', vs)]
   = \<lparr>Header = [''Peerdb-Next'' \<mapsto> vs,
                 ''Content-Type'' \<mapsto> [''application/json''],
                 ''Content-Length'' \<mapsto> [''7''],
                 ''Cache-Control'' \<mapsto> [''no-cache''],
                 ''Vary'' \<mapsto> [''Accept-Encoding''],
                 ''Etag'' \<mapsto> [[CHR 0x22]
                    @ RawURLEncoding_EncodeToString (Sum256 (exampleDocument @ ''next'' @ concat vs))
                    @ [CHR 0x22]],
                 ''X-Content-Type-Options'' \<mapsto> [''nosniff'']],
      Sent = ServedContent exampleDocument\<rparr>"
proof -
  have len: "length exampleDocument = 7"
    by (simp add: exampleDocument_def)
  show ?thesis
    by (simp add: writeJSON_def len minCompressionSize_def compress_def compressionIdentity_def
                  compressionBrotli_def compressionGzip_def compressionDeflate_def Let_def
                  writeJSON_metadata_def peerDBMetadataHeaderPrefix_def canon_peerdb_next
                  hash_Write_def sha256_New_def hash_Sum_def foldl_hash_Write
                  Header_Set_def Header_Add_def http_ServeContent_def newResponseWriter_def
                  Itoa_7)
qed

lemma canon_peerdb_a: "CanonicalMIMEHeaderKey ''peerdb-a'' = ''Peerdb-A''"
  by code_simp

lemma canon_peerdb_b: "CanonicalMIMEHeaderKey ''peerdb-b'' = ''Peerdb-B''"
  by code_simp

text \<open>
  A metadata map with the two entries \<open>a: ["1"]\<close> and \<open>b: ["2"]\<close>, visited in
  either order.
\<close>

lemma writeJSON_example_a_b:
  "writeJSON stubPackages (\<lambda>d. Inr d) newResponseWriter (requestAccepting [])
     ''gzip'' exampleDocument [(''a'', [''1'']), (''b'', [''2''])]
   = \<lparr>Header = [''Peerdb-A'' \<mapsto> [''1''], ''Peerdb-B'' \<mapsto> [''2''],
                 ''Content-Type'' \<mapsto> [''application/json''],
                 ''Content-Length'' \<mapsto> [''7''],
                 ''Cache-Control'' \<mapsto> [''no-cache''],
                 ''Vary'' \<mapsto> [''Accept-Encoding''],
                 ''Etag'' \<mapsto> [[CHR 0x22]
                    @ RawURLEncoding_EncodeToString (Sum256 (exampleDocument @ ''a1b2''))
                    @ [CHR 0x22]],
                 ''X-Content-Type-Options'' \<mapsto> [''nosniff'']],
      Sent = ServedContent exampleDocument\<rparr>"
proof -
  have len: "length exampleDocument = 7"
    by (simp add: exampleDocument_def)
  show ?thesis
    by (simp add: writeJSON_def len minCompressionSize_def compress_def compressionIdentity_def
                  compressionBrotli_def compressionGzip_def compressionDeflate_def Let_def
                  writeJSON_metadata_def peerDBMetadataHeaderPrefix_def canon_peerdb_a
                  canon_peerdb_b hash_Write_def sha256_New_def hash_Sum_def
                  Header_Set_def Header_Add_def http_ServeContent_def newResponseWriter_def
                  Itoa_7)
qed

lemma writeJSON_example_b_a:
  "writeJSON stubPackages (\<lambda>d. Inr d) newResponseWriter (requestAccepting [])
     ''gzip'' exampleDocument [(''b'', [''2'']), (''a'', [''1''])]
   = \<lparr>Header = [''Peerdb-B'' \<mapsto> [''2''], ''Peerdb-A'' \<mapsto> [''1''],
                 ''Content-Type'' \<mapsto> [''application/json''],
                 ''Content-Length'' \<mapsto> [''7''],
                 ''Cache-Control'' \<mapsto> [''no-cache''],
                 ''Vary'' \<mapsto> [''Accept-Encoding''],
                 ''Etag'' \<mapsto> [[CHR 0x22]
                    @ RawURLEncoding_EncodeToString (Sum256 (exampleDocument @ ''b2a1''))
                    @ [CHR 0x22]],
                 ''X-Content-Type-Options'' \<mapsto> [''nosniff'']],
      Sent = ServedContent exampleDocument\<rparr>"
proof -
  have len: "length exampleDocument = 7"
    by (simp add: exampleDocument_def)
  show ?thesis
    by (simp add: writeJSON_def len minCompressionSize_def compress_def compressionIdentity_def
                  compressionBrotli_def compressionGzip_def compressionDeflate_def Let_def
                  writeJSON_metadata_def peerDBMetadataHeaderPrefix_def canon_peerdb_a
                  canon_peerdb_b hash_Write_def sha256_New_def hash_Sum_def
                  Header_Set_def Header_Add_def http_ServeContent_def newResponseWriter_def
                  Itoa_7)
qed

text \<open>The two digests, computed.\<close>

lemma etag_a_b:
  \<open>RawURLEncoding_EncodeToString (Sum256 (exampleDocument @ ''a1b2''))
     = ''gEk83Ywl_u8A4SQ6yOqxswL6EJhz7uADT01npGcc2VI''\<close>
  by code_simp

lemma etag_b_a:
  \<open>RawURLEncoding_EncodeToString (Sum256 (exampleDocument @ ''b2a1''))
     = ''-vcEnT6ZXculSegfvDWwR1Z_Nev2SAjMGuAroT2EK1U''\<close>
  by code_simp

text \<open>
  C3 does not hold of \<open>writeJSON\<close>, which binds the metadata into the ETag but not
  soundly. Keys and values are written to the hash with nothing between them: two
  responses with the same body whose entry \<open>next\<close> has the values \<open>["ab", "c"]\<close>
  and \<open>["a", "bc"]\<close> carry the same ETag. And the entries are hashed in the order in
  which the loop over the map visits them, which Go leaves open: the same body with the
  same two entries gets one ETag when \<open>a\<close> is visited first and another when \<open>b\<close> is.
\<close>

theorem writeJSON_etag_misses_metadata:
  \<open>Header (writeJSON stubPackages (\<lambda>d. Inr d) newResponseWriter (requestAccepting [])
      ''gzip'' exampleDocument [(''next'', [''ab'', ''c''])]) ''Peerdb-Next'' = Some [''ab'', ''c'']
   \<and> Header (writeJSON stubPackages (\<lambda>d. Inr d) newResponseWriter (requestAccepting [])
      ''gzip'' exampleDocument [(''next'', [''a'', ''bc''])]) ''Peerdb-Next'' = Some [''a'', ''bc'']
   \<and> Header (writeJSON stubPackages (\<lambda>d. Inr d) newResponseWriter (requestAccepting [])
      ''gzip'' exampleDocument [(''next'', [''ab'', ''c''])]) ''Etag''
     = Header (writeJSON stubPackages (\<lambda>d. Inr d) newResponseWriter (requestAccepting [])
      ''gzip'' exampleDocument [(''next'', [''a'', ''bc''])]) ''Etag''
   \<and> map (Header (writeJSON stubPackages (\<lambda>d. Inr d) newResponseWriter (requestAccepting [])
           ''gzip'' exampleDocument [(''a'', [''1'']), (''b'', [''2''])]))
        [''Peerdb-A'', ''Peerdb-B'', ''Etag'']
     = [Some [''1''], Some [''2''], Some [''"gEk83Ywl_u8A4SQ6yOqxswL6EJhz7uADT01npGcc2VI"'']]
   \<and> map (Header (writeJSON stubPackages (\<lambda>d. Inr d) newResponseWriter (requestAccepting [])
           ''gzip'' exampleDocument [(''b'', [''2'']), (''a'', [''1''])]))
        [''Peerdb-A'', ''Peerdb-B'', ''Etag'']
     = [Some [''1''], Some [''2''], Some [''"-vcEnT6ZXculSegfvDWwR1Z_Nev2SAjMGuAroT2EK1U"'']]\<close>
  by (simp add: writeJSON_example writeJSON_example_a_b writeJSON_example_b_a etag_a_b etag_b_a)

section \<open>The ETag of the JSON branch\<close>

text \<open>
  C2, as amended. When the JSON branch serves a body, the ETag is the quoted base64url
  SHA-256 digest of the served bytes, and the served bytes are the body of the index
  engine's answer to a request that carried the negotiated encoding in its
  \<open>Accept-Encoding\<close>, passed on as they came. So two requests receive the same ETag
  whenever the index engine answered both with the same bytes.
\<close>

theorem DocumentGetGetJSON_etag:
  assumes "Sent w = NotWritten"
    and "Sent (Writer (DocumentGetGetJSON P s w req ps)) = ServedContent content"
  shows "Header (Writer (DocumentGetGetJSON P s w req ps)) ''Etag''
           = Some [[CHR 0x22] @ RawURLEncoding_EncodeToString (Sum256 content) @ [CHR 0x22]]
       \<and> (\<exists>resp.
            ESClient s
              \<lparr>Method = ''GET'', Path = ''/docs/_source/'' @ ByName ps ''id'',
               Headers =
                 Header_Set
                   (Header_Set Map.empty ''Accept-Encoding''
                      (NegotiateContentEncoding req
                         [compressionGzip, compressionDeflate, compressionIdentity]))
                   ''X-Opaque-ID'' (idFromRequest req)\<rparr> = Inr resp
            \<and> content = Body resp)"
  using assms
  by (auto simp: DocumentGetGetJSON_def Let_def http_NotFound_def http_ServeContent_def
                 internalServerError_def Header_Set_def Header_Add_def
           split: sum.splits if_splits)

text \<open>
  The stub's answers to a client that accepts gzip and to one that sends no
  \<open>Accept-Encoding\<close>.
\<close>

lemma negotiate_gzip:
  "NegotiateContentEncoding (requestAccepting [\<lparr>Value = ''gzip'', Q = 1\<rparr>])
     [compressionGzip, compressionDeflate, compressionIdentity] = ''gzip''"
  by (simp add: NegotiateContentEncoding_def negotiate_offer_def negotiate_spec_def
                requestAccepting_def Let_def compressionGzip_def compressionDeflate_def
                compressionIdentity_def)

lemma negotiate_none:
  "NegotiateContentEncoding (requestAccepting [])
     [compressionGzip, compressionDeflate, compressionIdentity] = compressionIdentity"
  by (simp add: NegotiateContentEncoding_def negotiate_offer_def negotiate_spec_def
                requestAccepting_def Let_def compressionIdentity_def)

lemma identity_not_empty: "compressionIdentity \<noteq> []"
  by (simp add: compressionIdentity_def)

lemma identity_not_gzip: "compressionIdentity \<noteq> ''gzip''"
  by (simp add: compressionIdentity_def)

lemma stub_gzip_response:
  "Writer (DocumentGetGetJSON stubPackages stubService newResponseWriter
     (requestAccepting [\<lparr>Value = ''gzip'', Q = 1\<rparr>]) [(''id'', exampleID)])
   = \<lparr>Header = [''Content-Type'' \<mapsto> [''application/json''],
                 ''Content-Encoding'' \<mapsto> [''gzip''],
                 ''Cache-Control'' \<mapsto> [''no-cache''],
                 ''Vary'' \<mapsto> [''Accept-Encoding''],
                 ''Etag'' \<mapsto> [[CHR 0x22]
                    @ RawURLEncoding_EncodeToString (Sum256 exampleDocumentGzip) @ [CHR 0x22]],
                 ''X-Content-Type-Options'' \<mapsto> [''nosniff'']],
      Sent = ServedContent exampleDocumentGzip\<rparr>"
  by (simp add: DocumentGetGetJSON_def negotiate_gzip Let_def stubPackages_def
                stubService_def stubESClient_def exampleID_def Header_Get_def Header_Set_def
                Header_Add_def http_ServeContent_def gzip_not_identity newResponseWriter_def)

lemma stub_identity_response:
  "Writer (DocumentGetGetJSON stubPackages stubService newResponseWriter
     (requestAccepting []) [(''id'', exampleID)])
   = \<lparr>Header = [''Content-Type'' \<mapsto> [''application/json''],
                 ''Content-Length'' \<mapsto> [''7''],
                 ''Cache-Control'' \<mapsto> [''no-cache''],
                 ''Vary'' \<mapsto> [''Accept-Encoding''],
                 ''Etag'' \<mapsto> [[CHR 0x22]
                    @ RawURLEncoding_EncodeToString (Sum256 exampleDocument) @ [CHR 0x22]],
                 ''X-Content-Type-Options'' \<mapsto> [''nosniff'']],
      Sent = ServedContent exampleDocument\<rparr>"
  by (simp add: DocumentGetGetJSON_def negotiate_none Let_def stubPackages_def
                stubService_def stubESClient_def exampleID_def Header_Get_def Header_Set_def
                Header_Add_def http_ServeContent_def identity_not_empty identity_not_gzip
                newResponseWriter_def)

theorem DocumentGetGetJSON_etag_witness:
  "Sent newResponseWriter = NotWritten
   \<and> Sent (Writer (DocumentGetGetJSON stubPackages stubService newResponseWriter
        (requestAccepting []) [(''id'', exampleID)])) = ServedContent exampleDocument
   \<and> Header (Writer (DocumentGetGetJSON stubPackages stubService newResponseWriter
        (requestAccepting []) [(''id'', exampleID)])) ''Etag''
      = Some [[CHR 0x22] @ RawURLEncoding_EncodeToString (Sum256 exampleDocument) @ [CHR 0x22]]"
proof -
  have fresh: "Sent newResponseWriter = NotWritten"
    by (simp add: newResponseWriter_def)
  have served: "Sent (Writer (DocumentGetGetJSON stubPackages stubService newResponseWriter
        (requestAccepting []) [(''id'', exampleID)])) = ServedContent exampleDocument"
    by (simp add: stub_identity_response)
  show ?thesis
    using fresh served DocumentGetGetJSON_etag [OF fresh served]
    by simp
qed

text \<open>The two digests, computed.\<close>

lemma etag_exampleDocument:
  \<open>RawURLEncoding_EncodeToString (Sum256 exampleDocument)
     = ''AVq9f1zFei3ZS3WQ8ErYCEJzkF7jPsXOvq5iJ2qX-GI''\<close>
  by code_simp

lemma etag_exampleDocumentGzip:
  \<open>RawURLEncoding_EncodeToString (Sum256 exampleDocumentGzip)
     = ''sqjGEfCWAIEiSiMBB__aQoigKSNQlCnZPDwqXfHEWlM''\<close>
  by code_simp

text \<open>
  C2 as stated fails: the same document, requested once with gzip and once without an
  \<open>Accept-Encoding\<close>, is served with two different ETags, each the digest of the
  bytes the index engine returned for that encoding.
\<close>

theorem DocumentGetGetJSON_etag_encoding_counterexample:
  \<open>Writer (DocumentGetGetJSON stubPackages stubService newResponseWriter
      (requestAccepting [\<lparr>Value = ''gzip'', Q = 1\<rparr>]) [(''id'', exampleID)])
    = \<lparr>Header = [''Content-Type'' \<mapsto> [''application/json''],
                  ''Content-Encoding'' \<mapsto> [''gzip''],
                  ''Cache-Control'' \<mapsto> [''no-cache''],
                  ''Vary'' \<mapsto> [''Accept-Encoding''],
                  ''Etag'' \<mapsto> [''"sqjGEfCWAIEiSiMBB__aQoigKSNQlCnZPDwqXfHEWlM"''],
                  ''X-Content-Type-Options'' \<mapsto> [''nosniff'']],
       Sent = ServedContent exampleDocumentGzip\<rparr>
   \<and> Writer (DocumentGetGetJSON stubPackages stubService newResponseWriter
      (requestAccepting []) [(''id'', exampleID)])
    = \<lparr>Header = [''Content-Type'' \<mapsto> [''application/json''],
                  ''Content-Length'' \<mapsto> [''7''],
                  ''Cache-Control'' \<mapsto> [''no-cache''],
                  ''Vary'' \<mapsto> [''Accept-Encoding''],
                  ''Etag'' \<mapsto> [''"AVq9f1zFei3ZS3WQ8ErYCEJzkF7jPsXOvq5iJ2qX-GI"''],
                  ''X-Content-Type-Options'' \<mapsto> [''nosniff'']],
       Sent = ServedContent exampleDocument\<rparr>\<close>
  by (simp add: stub_gzip_response stub_identity_response etag_exampleDocument
                etag_exampleDocumentGzip)

section \<open>The bootstrap\<close>

lemma appendRelation_Some:
  assumes "K ident = Some d" and "Active d = Some simple"
  shows "appendRelation K ident claim
           = Inr (K(ident \<mapsto> d\<lparr>Active := Some (simple\<lparr>Relation := Relation simple @ [claim]\<rparr>)\<rparr>))"
  using assms by (simp add: appendRelation_def)

lemma populate_Is_appends:
  assumes "K ident = Some d" and "Active d = Some simple"
  shows "populate_Is I mnemonic ident isClaims K
           = Inr (K(ident \<mapsto> d\<lparr>Active := Some
                    (simple\<lparr>Relation := Relation simple
                                @ map (isRelationClaim I mnemonic) isClaims\<rparr>)\<rparr>))"
  using assms
proof (induction isClaims arbitrary: K d simple)
  case Nil
  have "d\<lparr>Active := Some (simple\<lparr>Relation := Relation simple @ []\<rparr>)\<rparr> = d"
    using Nil.prems(2) by simp
  moreover have "K(ident \<mapsto> d) = K"
    using Nil.prems(1) by (rule map_upd_triv)
  ultimately show ?case
    by simp
next
  case (Cons isClaim rest)
  define simple' where "simple' = simple\<lparr>Relation := Relation simple @ [isRelationClaim I mnemonic isClaim]\<rparr>"
  define d' where "d' = d\<lparr>Active := Some simple'\<rparr>"
  define K' where "K' = K(ident \<mapsto> d')"
  have step: "appendRelation K ident (isRelationClaim I mnemonic isClaim) = Inr K'"
    unfolding K'_def d'_def simple'_def using Cons.prems by (rule appendRelation_Some)
  have "K' ident = Some d'" and "Active d' = Some simple'"
    by (simp_all add: K'_def d'_def)
  then have IH: "populate_Is I mnemonic ident rest K'
          = Inr (K'(ident \<mapsto> d'\<lparr>Active := Some
                    (simple'\<lparr>Relation := Relation simple' @ map (isRelationClaim I mnemonic) rest\<rparr>)\<rparr>))"
    by (rule Cons.IH)
  have same: "K'(ident \<mapsto> d'\<lparr>Active := Some
                    (simple'\<lparr>Relation := Relation simple' @ map (isRelationClaim I mnemonic) rest\<rparr>)\<rparr>)
        = K(ident \<mapsto> d\<lparr>Active := Some
                    (simple\<lparr>Relation := Relation simple
                                @ map (isRelationClaim I mnemonic) (isClaim # rest)\<rparr>)\<rparr>)"
    by (simp add: K'_def d'_def simple'_def)
  have "populate_Is I mnemonic ident (isClaim # rest) K = populate_Is I mnemonic ident rest K'"
    by (simp add: step)
  then show ?case
    unfolding IH same .
qed

text \<open>One round of each loop, without the panics that cannot happen.\<close>

lemma populate_claimTypes_Cons:
  "populate_claimTypes I (claimType # rest) K
     = populate_claimTypes I rest (K(claimTypeID I claimType \<mapsto> storedClaimTypeDocument I claimType))"
  by (simp add: Let_def claimTypeID_def storedClaimTypeDocument_def)

lemma populate_builtinProperties_Cons:
  "populate_builtinProperties I (bp # rest) K
     = populate_builtinProperties I rest
         (populate_claimTypes I claimTypes
            (K(builtinPropertyID I bp \<mapsto> storedBuiltinDocument I bp)))"
proof -
  define m where "m = getMnemonic (PName bp)"
  define k where "k = getPropertyID I m"
  define d where "d = builtinDocument I bp m k"
  obtain simple where simple: "Active d = Some simple"
    by (simp add: d_def builtinDocument_def)
  define d' where "d' = d\<lparr>Active := Some (simple\<lparr>Relation := Relation simple
                                      @ map (isRelationClaim I m) (Is bp)\<rparr>)\<rparr>"
  have a: "simpleClaimTypes (K(k \<mapsto> d)) k = Inr simple"
    using simple by (simp add: simpleClaimTypes_def)
  have "populate_Is I m k (Is bp) (K(k \<mapsto> d)) = Inr ((K(k \<mapsto> d))(k \<mapsto> d'))"
    unfolding d'_def by (rule populate_Is_appends) (simp_all add: simple)
  then have b: "populate_Is I m k (Is bp) (K(k \<mapsto> d)) = Inr (K(k \<mapsto> d'))"
    by simp
  have c: "storedBuiltinDocument I bp = d'"
    by (simp add: storedBuiltinDocument_def Let_def d'_def d_def k_def m_def simple [unfolded d_def k_def m_def])
  have "populate_builtinProperties I (bp # rest) K
          = populate_builtinProperties I rest (populate_claimTypes I claimTypes (K(k \<mapsto> d')))"
    using a b by (simp add: Let_def m_def [symmetric] k_def [symmetric] d_def [symmetric])
  then show ?thesis
    by (simp add: c builtinPropertyID_def k_def m_def)
qed

lemma populate_claimTypes_add:
  "populate_claimTypes I cts K = K ++ populate_claimTypes I cts Map.empty"
proof (induction cts arbitrary: K)
  case Nil
  show ?case by simp
next
  case (Cons claimType rest)
  define k where "k = claimTypeID I claimType"
  define v where "v = storedClaimTypeDocument I claimType"
  have unfold: "populate_claimTypes I (claimType # rest) M = populate_claimTypes I rest (M(k \<mapsto> v))" for M
    unfolding k_def v_def by (rule populate_claimTypes_Cons)
  have "populate_claimTypes I (claimType # rest) K = K(k \<mapsto> v) ++ populate_claimTypes I rest Map.empty"
    unfolding unfold by (rule Cons.IH)
  moreover have "populate_claimTypes I (claimType # rest) Map.empty
                   = [k \<mapsto> v] ++ populate_claimTypes I rest Map.empty"
    unfolding unfold by (rule Cons.IH)
  moreover have "K(k \<mapsto> v) = K ++ [k \<mapsto> v]"
    by simp
  ultimately show ?case
    by (simp only: map_add_assoc)
qed

lemma populate_builtinProperties_add:
  "\<exists>W. \<forall>K. populate_builtinProperties I bps K = Inr (K ++ W)"
proof (induction bps)
  case Nil
  have "\<forall>K. populate_builtinProperties I [] K = Inr (K ++ Map.empty)"
    by simp
  then show ?case by blast
next
  case (Cons bp rest)
  then obtain W where W: "\<And>K. populate_builtinProperties I rest K = Inr (K ++ W)"
    by blast
  define k where "k = builtinPropertyID I bp"
  define v where "v = storedBuiltinDocument I bp"
  have "populate_builtinProperties I (bp # rest) K
          = Inr (K ++ ([k \<mapsto> v] ++ populate_claimTypes I claimTypes Map.empty ++ W))" for K
  proof -
    have "populate_builtinProperties I (bp # rest) K
            = Inr (populate_claimTypes I claimTypes (K(k \<mapsto> v)) ++ W)"
      unfolding populate_builtinProperties_Cons k_def v_def by (rule W)
    also have "populate_claimTypes I claimTypes (K(k \<mapsto> v))
                 = K(k \<mapsto> v) ++ populate_claimTypes I claimTypes Map.empty"
      by (rule populate_claimTypes_add)
    also have "K(k \<mapsto> v) = K ++ [k \<mapsto> v]"
      by simp
    finally show ?thesis
      by (simp only: map_add_assoc)
  qed
  then show ?case by blast
qed

lemma map_add_twice: "(K ++ W) ++ W = K ++ (W::'a \<rightharpoonup> 'b)"
  by (simp add: map_add_assoc [symmetric] map_add_def fun_eq_iff split: option.splits)

section \<open>The documents in the table\<close>

lemma storedBuiltinDocument_ID: "ID (storedBuiltinDocument I bp) = builtinPropertyID I bp"
  by (simp add: storedBuiltinDocument_def Let_def builtinDocument_def builtinPropertyID_def)

lemma storedClaimTypeDocument_ID: "ID (storedClaimTypeDocument I ct) = claimTypeID I ct"
  by (simp add: storedClaimTypeDocument_def claimTypeDocument_def)

lemma storedBuiltinDocument_property:
  assumes "bp \<in> set builtinProperties"
  shows "propertyDocument I (storedBuiltinDocument I bp)"
proof -
  have "ownDescription (storedBuiltinDocument I bp)
          \<lparr>ClaimID = getPropertyClaimID I (getMnemonic (PName bp)) ''DESCRIPTION'' 0,
           Confidence = 1, TextProp = descriptionReference I,
           Plain = [(''en'', DescriptionPlain bp)], HTML = [(''en'', DescriptionHTML bp)]\<rparr>"
    using assms
    by (auto simp: ownDescription_def list_ex_iff describedAs_def storedBuiltinDocument_def
                   Let_def builtinDocument_def)
  then show ?thesis
    by (simp add: propertyDocument_def storedBuiltinDocument_def Let_def builtinDocument_def
                  isRelationTo_def propertyReference_def)
qed

lemma storedClaimTypeDocument_property:
  assumes "ct \<in> set claimTypes"
  shows "propertyDocument I (storedClaimTypeDocument I ct)"
proof -
  have "ownDescription (storedClaimTypeDocument I ct)
          \<lparr>ClaimID = getPropertyClaimID I (getMnemonic (claimTypeName ct)) ''DESCRIPTION'' 0,
           Confidence = 1, TextProp = descriptionReference I,
           Plain = [(''en'', claimTypeDescription ct)],
           HTML = [(''en'', EscapeString (claimTypeDescription ct))]\<rparr>"
    using assms
    by (auto simp: ownDescription_def list_ex_iff describedAs_def storedClaimTypeDocument_def
                   claimTypeDocument_def)
  then show ?thesis
    by (simp add: propertyDocument_def storedClaimTypeDocument_def claimTypeDocument_def
                  isRelationTo_def propertyReference_def)
qed

lemma storedClaimTypeDocument_marker:
  assumes "ct \<in> set claimTypes"
  shows "claimTypeMarker I (storedClaimTypeDocument I ct)"
  using storedClaimTypeDocument_property [OF assms, of I]
  by (simp add: claimTypeMarker_def)
     (simp add: storedClaimTypeDocument_def claimTypeDocument_def isRelationTo_def)

text \<open>Every document in the table is a property document stored under its own ID.\<close>

lemma populate_claimTypes_inv:
  assumes "set cts \<subseteq> set claimTypes"
    and "\<And>ident d. K ident = Some d \<Longrightarrow> propertyDocument I d \<and> ID d = ident"
    and "populate_claimTypes I cts K ident = Some d"
  shows "propertyDocument I d \<and> ID d = ident"
  using assms
proof (induction cts arbitrary: K)
  case Nil
  then show ?case by simp
next
  case (Cons ct rest)
  have ct: "ct \<in> set claimTypes" using Cons.prems(1) by simp
  show ?case
  proof (rule Cons.IH [of "K(claimTypeID I ct \<mapsto> storedClaimTypeDocument I ct)"])
    show "set rest \<subseteq> set claimTypes" using Cons.prems(1) by simp
    show "populate_claimTypes I rest (K(claimTypeID I ct \<mapsto> storedClaimTypeDocument I ct)) ident
            = Some d"
      using Cons.prems(3) by (simp only: populate_claimTypes_Cons)
    fix ident' d'
    assume "(K(claimTypeID I ct \<mapsto> storedClaimTypeDocument I ct)) ident' = Some d'"
    then show "propertyDocument I d' \<and> ID d' = ident'"
      using Cons.prems(2) [of ident' d'] storedClaimTypeDocument_property [OF ct, of I]
      by (auto simp: storedClaimTypeDocument_ID split: if_splits)
  qed
qed

lemma populate_builtinProperties_inv:
  assumes "set bps \<subseteq> set builtinProperties"
    and "\<And>ident d. K ident = Some d \<Longrightarrow> propertyDocument I d \<and> ID d = ident"
    and "populate_builtinProperties I bps K = Inr K'"
    and "K' ident = Some d"
  shows "propertyDocument I d \<and> ID d = ident"
  using assms
proof (induction bps arbitrary: K)
  case Nil
  then show ?case by simp
next
  case (Cons bp rest)
  have bp: "bp \<in> set builtinProperties" using Cons.prems(1) by simp
  define K1 where "K1 = K(builtinPropertyID I bp \<mapsto> storedBuiltinDocument I bp)"
  define K2 where "K2 = populate_claimTypes I claimTypes K1"
  have K1: "propertyDocument I d' \<and> ID d' = ident'" if "K1 ident' = Some d'" for ident' d'
    using that Cons.prems(2) [of ident' d'] storedBuiltinDocument_property [OF bp, of I]
    by (auto simp: K1_def storedBuiltinDocument_ID split: if_splits)
  have K2: "propertyDocument I d' \<and> ID d' = ident'" if "K2 ident' = Some d'" for ident' d'
    using populate_claimTypes_inv [of claimTypes K1 I ident' d'] K1 that
    by (simp add: K2_def)
  show ?case
  proof (rule Cons.IH [of K2])
    show "set rest \<subseteq> set builtinProperties" using Cons.prems(1) by simp
    show "populate_builtinProperties I rest K2 = Inr K'"
      using Cons.prems(3) by (simp only: populate_builtinProperties_Cons K2_def K1_def)
    show "K' ident = Some d" by (rule Cons.prems(4))
    show "propertyDocument I d' \<and> ID d' = ident'" if "K2 ident' = Some d'" for ident' d'
      using that by (rule K2)
  qed
qed

text \<open>After a round of the claim-type loop every claim type has its marker.\<close>

lemma populate_claimTypes_markers_keep:
  assumes "set cts \<subseteq> set claimTypes"
    and "\<exists>d. K ident = Some d \<and> claimTypeMarker I d"
  shows "\<exists>d. populate_claimTypes I cts K ident = Some d \<and> claimTypeMarker I d"
  using assms
proof (induction cts arbitrary: K)
  case Nil
  then show ?case by simp
next
  case (Cons ct rest)
  have ct: "ct \<in> set claimTypes" using Cons.prems(1) by simp
  have "\<exists>d. (K(claimTypeID I ct \<mapsto> storedClaimTypeDocument I ct)) ident = Some d
            \<and> claimTypeMarker I d"
    using Cons.prems(2) storedClaimTypeDocument_marker [OF ct, of I] by simp
  moreover have "set rest \<subseteq> set claimTypes" using Cons.prems(1) by simp
  ultimately show ?case
    unfolding populate_claimTypes_Cons by (rule Cons.IH [rotated])
qed

lemma populate_claimTypes_markers:
  assumes "set cts \<subseteq> set claimTypes" and "ct \<in> set cts"
  shows "\<exists>d. populate_claimTypes I cts K (claimTypeID I ct) = Some d \<and> claimTypeMarker I d"
  using assms
proof (induction cts arbitrary: K)
  case Nil
  then show ?case by simp
next
  case (Cons c rest)
  have c: "c \<in> set claimTypes" and rest: "set rest \<subseteq> set claimTypes"
    using Cons.prems(1) by simp_all
  show ?case
  proof (cases "ct \<in> set rest")
    case True
    with rest show ?thesis
      unfolding populate_claimTypes_Cons by (rule Cons.IH)
  next
    case False
    with Cons.prems(2) have "ct = c" by simp
    then have "\<exists>d. (K(claimTypeID I c \<mapsto> storedClaimTypeDocument I c)) (claimTypeID I ct) = Some d
                 \<and> claimTypeMarker I d"
      using storedClaimTypeDocument_marker [OF c, of I] by simp
    with rest show ?thesis
      unfolding populate_claimTypes_Cons by (rule populate_claimTypes_markers_keep)
  qed
qed

lemma populate_builtinProperties_markers:
  assumes "bps \<noteq> []" and "populate_builtinProperties I bps K = Inr K'" and "ct \<in> set claimTypes"
  shows "\<exists>d. K' (claimTypeID I ct) = Some d \<and> claimTypeMarker I d"
  using assms
proof (induction bps arbitrary: K)
  case Nil
  then show ?case by simp
next
  case (Cons bp rest)
  define K2 where
    "K2 = populate_claimTypes I claimTypes (K(builtinPropertyID I bp \<mapsto> storedBuiltinDocument I bp))"
  have run: "populate_builtinProperties I rest K2 = Inr K'"
    using Cons.prems(2) by (simp only: populate_builtinProperties_Cons K2_def)
  show ?case
  proof (cases "rest = []")
    case True
    with run have "K' = K2" by simp
    then show ?thesis
      using populate_claimTypes_markers [of claimTypes ct I] Cons.prems(3)
      by (simp add: K2_def)
  next
    case False
    then show ?thesis
      using run Cons.prems(3) by (rule Cons.IH)
  qed
qed

text \<open>The keys of the table.\<close>

lemma dom_populate_claimTypes:
  "dom (populate_claimTypes I cts K) = dom K \<union> claimTypeID I ` set cts"
proof (induction cts arbitrary: K)
  case Nil
  show ?case by simp
next
  case (Cons ct rest)
  show ?case
    unfolding populate_claimTypes_Cons Cons.IH by auto
qed

lemma dom_populate_builtinProperties:
  assumes "populate_builtinProperties I bps K = Inr K'"
  shows "dom K' = dom K \<union> builtinPropertyID I ` set bps
                  \<union> (if bps = [] then {} else claimTypeID I ` set claimTypes)"
  using assms
proof (induction bps arbitrary: K)
  case Nil
  then show ?case by auto
next
  case (Cons bp rest)
  define K2 where
    "K2 = populate_claimTypes I claimTypes (K(builtinPropertyID I bp \<mapsto> storedBuiltinDocument I bp))"
  have run: "populate_builtinProperties I rest K2 = Inr K'"
    using Cons.prems by (simp only: populate_builtinProperties_Cons K2_def)
  have "dom K2 = insert (builtinPropertyID I bp) (dom K) \<union> claimTypeID I ` set claimTypes"
    by (simp add: K2_def dom_populate_claimTypes)
  with Cons.IH [OF run] show ?case
    by auto
qed

lemma builtinProperties_not_empty: "builtinProperties \<noteq> []"
  by (simp add: builtinProperties_def)

lemma init_bootstrapped: "init I = Inr (bootstrapped I)"
proof -
  obtain W where "\<And>K. populate_builtinProperties I builtinProperties K = Inr (K ++ W)"
    using populate_builtinProperties_add [of I builtinProperties] by blast
  then show ?thesis
    by (simp add: bootstrapped_def init_def populateStandardProperties_def)
qed

lemma dom_bootstrapped: "dom (bootstrapped I) = getPropertyID I ` set registeredMnemonics"
proof -
  have "populate_builtinProperties I builtinProperties Map.empty = Inr (bootstrapped I)"
    using init_bootstrapped [of I] by (simp add: init_def populateStandardProperties_def)
  then have "dom (bootstrapped I)
               = builtinPropertyID I ` set builtinProperties \<union> claimTypeID I ` set claimTypes"
    using dom_populate_builtinProperties [of I builtinProperties Map.empty "bootstrapped I"]
      builtinProperties_not_empty by simp
  also have "\<dots> = getPropertyID I ` set registeredMnemonics"
    by (auto simp: registeredMnemonics_def builtinPropertyID_def claimTypeID_def)
  finally show ?thesis .
qed

lemma bootstrapped_inv:
  assumes "bootstrapped I ident = Some d"
  shows "propertyDocument I d \<and> ID d = ident"
proof -
  have "populate_builtinProperties I builtinProperties Map.empty = Inr (bootstrapped I)"
    using init_bootstrapped [of I] by (simp add: init_def populateStandardProperties_def)
  then show ?thesis
    using populate_builtinProperties_inv [of builtinProperties Map.empty I "bootstrapped I" ident d]
      assms
    by simp
qed


text \<open>The registered mnemonics, computed.\<close>

lemma ReplaceAll_Nil: "ReplaceAll [] old new = []"
  by simp

lemma ReplaceAll_byte:
  "ReplaceAll (c # s) [d] new
     = (if c = d then new @ ReplaceAll s [d] new else c # ReplaceAll s [d] new)"
  by (subst ReplaceAll.simps) simp

lemma ToUpper_builtinProperties:
  "ToUpper ''is'' = ''IS''"
  "ToUpper ''property'' = ''PROPERTY''"
  "ToUpper ''item'' = ''ITEM''"
  "ToUpper ''claim type'' = ''CLAIM TYPE''"
  "ToUpper ''description'' = ''DESCRIPTION''"
  "ToUpper ''Wikidata property id'' = ''WIKIDATA PROPERTY ID''"
  "ToUpper ''Wikidata item id'' = ''WIKIDATA ITEM ID''"
  "ToUpper ''Wikidata property page'' = ''WIKIDATA PROPERTY PAGE''"
  "ToUpper ''Wikidata item page'' = ''WIKIDATA ITEM PAGE''"
  "ToUpper ''English Wikipedia article'' = ''ENGLISH WIKIPEDIA ARTICLE''"
  by code_simp+

lemma ToUpper_claimTypes:
  "ToUpper ''identifier'' = ''IDENTIFIER''"
  "ToUpper ''reference'' = ''REFERENCE''"
  "ToUpper ''text'' = ''TEXT''"
  "ToUpper ''string'' = ''STRING''"
  "ToUpper ''label'' = ''LABEL''"
  "ToUpper ''amount'' = ''AMOUNT''"
  "ToUpper ''amount range'' = ''AMOUNT RANGE''"
  "ToUpper ''enumeration'' = ''ENUMERATION''"
  "ToUpper ''relation'' = ''RELATION''"
  "ToUpper ''time'' = ''TIME''"
  "ToUpper ''time range'' = ''TIME RANGE''"
  "ToUpper ''duration'' = ''DURATION''"
  "ToUpper ''duration range'' = ''DURATION RANGE''"
  "ToUpper ''file'' = ''FILE''"
  "ToUpper ''list'' = ''LIST''"
  by code_simp+







lemma ToUpper_claimTypeName:
  "ToUpper (claimTypeName claimType)
     = [CHR 0x22] @ ToUpper claimType @ [CHR 0x22] @ '' CLAIM TYPE''"
proof -
  have "ToUpper [CHR 0x22] = [CHR 0x22]" and "ToUpper '' claim type'' = '' CLAIM TYPE''"
    by code_simp+
  then show ?thesis
    by (simp add: claimTypeName_def ToUpper_def)
qed

lemma registeredMnemonics_value:
  "registeredMnemonics =
     [''IS'', ''PROPERTY'', ''ITEM'', ''CLAIM_TYPE'', ''DESCRIPTION'',
      ''WIKIDATA_PROPERTY_ID'', ''WIKIDATA_ITEM_ID'',
      ''WIKIDATA_PROPERTY_PAGE'', ''WIKIDATA_ITEM_PAGE'',
      ''ENGLISH_WIKIPEDIA_ARTICLE'', ''IDENTIFIER_CLAIM_TYPE'',
      ''REFERENCE_CLAIM_TYPE'', ''TEXT_CLAIM_TYPE'', ''STRING_CLAIM_TYPE'',
      ''LABEL_CLAIM_TYPE'', ''AMOUNT_CLAIM_TYPE'', ''AMOUNT_RANGE_CLAIM_TYPE'',
      ''ENUMERATION_CLAIM_TYPE'', ''RELATION_CLAIM_TYPE'', ''TIME_CLAIM_TYPE'',
      ''TIME_RANGE_CLAIM_TYPE'', ''DURATION_CLAIM_TYPE'',
      ''DURATION_RANGE_CLAIM_TYPE'', ''FILE_CLAIM_TYPE'', ''LIST_CLAIM_TYPE'']"
  by (simp add: registeredMnemonics_def builtinProperties_def claimTypes_def getMnemonic_def
                ToUpper_claimTypeName ToUpper_builtinProperties ToUpper_claimTypes
                ReplaceAll_Nil ReplaceAll_byte
           del: ReplaceAll.simps)

text \<open>
  C7. After the bootstrap, every document in the table has exactly one text claim, its
  description with confidence 1.0, and a relation claim whose property is \<open>is\<close> and
  whose target is \<open>property\<close>; every built-in property has a document in the table;
  and the document of every claim type has, in addition, a relation claim whose target
  is \<open>claim type\<close>.
\<close>

theorem bootstrap_documents:
  "init I = Inr (bootstrapped I)
   \<and> (\<forall>ident d. bootstrapped I ident = Some d \<longrightarrow> propertyDocument I d)
   \<and> (\<forall>builtinProperty \<in> set builtinProperties.
        \<exists>d. bootstrapped I (builtinPropertyID I builtinProperty) = Some d)
   \<and> (\<forall>claimType \<in> set claimTypes.
        \<exists>d. bootstrapped I (claimTypeID I claimType) = Some d \<and> claimTypeMarker I d)"
proof -
  have run: "populate_builtinProperties I builtinProperties Map.empty = Inr (bootstrapped I)"
    using init_bootstrapped [of I] by (simp add: init_def populateStandardProperties_def)
  have "\<exists>d. bootstrapped I (builtinPropertyID I bp) = Some d" if "bp \<in> set builtinProperties" for bp
  proof -
    have "builtinPropertyID I bp \<in> dom (bootstrapped I)"
      using that dom_populate_builtinProperties [OF run] by simp
    then show ?thesis by blast
  qed
  moreover have "\<exists>d. bootstrapped I (claimTypeID I ct) = Some d \<and> claimTypeMarker I d"
    if "ct \<in> set claimTypes" for ct
    using builtinProperties_not_empty run that by (rule populate_builtinProperties_markers)
  ultimately show ?thesis
    using init_bootstrapped [of I] bootstrapped_inv [of I] by blast
qed



text \<open>
  C4. The bootstrap is idempotent: from any table it runs without a panic, and run
  again on the table it produced, it produces that same table.
\<close>

theorem populateStandardProperties_idempotent:
  "\<exists>KnownProperties.
     populateStandardProperties I K = Inr KnownProperties
     \<and> populateStandardProperties I KnownProperties = Inr KnownProperties"
proof -
  obtain W where W: "\<And>K. populate_builtinProperties I builtinProperties K = Inr (K ++ W)"
    using populate_builtinProperties_add [of I builtinProperties] by blast
  have "populateStandardProperties I K = Inr (K ++ W)"
    by (simp add: populateStandardProperties_def W)
  moreover have "populateStandardProperties I (K ++ W) = Inr (K ++ W)"
    by (simp add: populateStandardProperties_def W map_add_twice)
  ultimately show ?thesis by blast
qed



text \<open>
  C8. After the bootstrap, \<open>GetStandardPropertyReference\<close> returns, for every
  registered mnemonic, the reference built from the ID, name, score and scores of the
  document stored under the mnemonic's identifier; and it panics for every mnemonic
  whose identifier is that of no registered mnemonic. (Identifiers of different
  mnemonics are different by the data model of the specification; the derivation
  itself is a parameter.)
\<close>

theorem GetStandardPropertyReference_registered:
  "init I = Inr (bootstrapped I)
   \<and> (\<forall>mnemonic \<in> set registeredMnemonics.
        \<exists>property. bootstrapped I (getPropertyID I mnemonic) = Some property
          \<and> ID property = getPropertyID I mnemonic
          \<and> GetStandardPropertyReference I (bootstrapped I) mnemonic
              = Inr \<lparr>RefID = ID property, RefName = Name property,
                     RefScore = Score property, RefScores = Scores property\<rparr>)
   \<and> (\<forall>mnemonic.
        (\<forall>registered \<in> set registeredMnemonics.
           getPropertyID I registered \<noteq> getPropertyID I mnemonic) \<longrightarrow>
        GetStandardPropertyReference I (bootstrapped I) mnemonic
          = Inl (Panic (''standard property for mnemonic '' @ [CHR 0x22] @ mnemonic
                        @ [CHR 0x22] @ '' cannot be found'')))"
proof -
  have registered: "\<exists>property. bootstrapped I (getPropertyID I mnemonic) = Some property
          \<and> ID property = getPropertyID I mnemonic
          \<and> GetStandardPropertyReference I (bootstrapped I) mnemonic
              = Inr \<lparr>RefID = ID property, RefName = Name property,
                     RefScore = Score property, RefScores = Scores property\<rparr>"
    if "mnemonic \<in> set registeredMnemonics" for mnemonic
  proof -
    have "getPropertyID I mnemonic \<in> dom (bootstrapped I)"
      using that by (simp add: dom_bootstrapped)
    then obtain property where "bootstrapped I (getPropertyID I mnemonic) = Some property"
      by blast
    then show ?thesis
      using bootstrapped_inv [of I "getPropertyID I mnemonic" property]
      by (simp add: GetStandardPropertyReference_def)
  qed
  have unregistered: "GetStandardPropertyReference I (bootstrapped I) mnemonic
          = Inl (Panic (''standard property for mnemonic '' @ [CHR 0x22] @ mnemonic
                        @ [CHR 0x22] @ '' cannot be found''))"
    if "\<forall>registered \<in> set registeredMnemonics.
           getPropertyID I registered \<noteq> getPropertyID I mnemonic" for mnemonic
  proof -
    have "getPropertyID I mnemonic \<notin> dom (bootstrapped I)"
      using that by (auto simp: dom_bootstrapped)
    then have "bootstrapped I (getPropertyID I mnemonic) = None"
      by blast
    then show ?thesis
      by (simp add: GetStandardPropertyReference_def)
  qed
  show ?thesis
    using init_bootstrapped [of I] registered unregistered by blast
qed

text \<open>The example derivation keeps different UUIDs apart.\<close>

lemma exampleIDs_FromUUID_inj:
  assumes "identifier_FromUUID exampleIDs u = identifier_FromUUID exampleIDs v"
  shows "u = v"
proof (rule bit_word_eqI)
  fix n
  assume "n < LENGTH(128)"
  then have n: "n \<in> set (rev [0..<128])"
    by simp
  from assms have "map (\<lambda>n. if bit u n then CHR ''1'' else CHR ''0'') (rev [0..<128])
      = map (\<lambda>n. if bit v n then CHR ''1'' else CHR ''0'') (rev [0..<128])"
    by (simp add: exampleIDs_def)
  then have "(if bit u n then CHR ''1'' else CHR ''0'') = (if bit v n then CHR ''1'' else CHR ''0'')"
    using n by (simp only: map_eq_conv)
  then show "bit u n = bit v n"
    by (simp split: if_splits)
qed

lemma exampleIDs_getPropertyID_neq:
  assumes "uuid_NewSHA1 exampleIDs NameSpaceStandardProperties a
             \<noteq> uuid_NewSHA1 exampleIDs NameSpaceStandardProperties b"
  shows "getPropertyID exampleIDs a \<noteq> getPropertyID exampleIDs b"
  using assms exampleIDs_FromUUID_inj by (auto simp: getPropertyID_def)

lemma unregistered_uuids:
  "uuid_NewSHA1 exampleIDs NameSpaceStandardProperties ''IS''
     \<noteq> uuid_NewSHA1 exampleIDs NameSpaceStandardProperties ''NOT_A_PROPERTY''"
  "uuid_NewSHA1 exampleIDs NameSpaceStandardProperties ''PROPERTY''
     \<noteq> uuid_NewSHA1 exampleIDs NameSpaceStandardProperties ''NOT_A_PROPERTY''"
  "uuid_NewSHA1 exampleIDs NameSpaceStandardProperties ''ITEM''
     \<noteq> uuid_NewSHA1 exampleIDs NameSpaceStandardProperties ''NOT_A_PROPERTY''"
  "uuid_NewSHA1 exampleIDs NameSpaceStandardProperties ''CLAIM_TYPE''
     \<noteq> uuid_NewSHA1 exampleIDs NameSpaceStandardProperties ''NOT_A_PROPERTY''"
  "uuid_NewSHA1 exampleIDs NameSpaceStandardProperties ''DESCRIPTION''
     \<noteq> uuid_NewSHA1 exampleIDs NameSpaceStandardProperties ''NOT_A_PROPERTY''"
  "uuid_NewSHA1 exampleIDs NameSpaceStandardProperties ''WIKIDATA_PROPERTY_ID''
     \<noteq> uuid_NewSHA1 exampleIDs NameSpaceStandardProperties ''NOT_A_PROPERTY''"
  "uuid_NewSHA1 exampleIDs NameSpaceStandardProperties ''WIKIDATA_ITEM_ID''
     \<noteq> uuid_NewSHA1 exampleIDs NameSpaceStandardProperties ''NOT_A_PROPERTY''"
  "uuid_NewSHA1 exampleIDs NameSpaceStandardProperties ''WIKIDATA_PROPERTY_PAGE''
     \<noteq> uuid_NewSHA1 exampleIDs NameSpaceStandardProperties ''NOT_A_PROPERTY''"
  "uuid_NewSHA1 exampleIDs NameSpaceStandardProperties ''WIKIDATA_ITEM_PAGE''
     \<noteq> uuid_NewSHA1 exampleIDs NameSpaceStandardProperties ''NOT_A_PROPERTY''"
  "uuid_NewSHA1 exampleIDs NameSpaceStandardProperties ''ENGLISH_WIKIPEDIA_ARTICLE''
     \<noteq> uuid_NewSHA1 exampleIDs NameSpaceStandardProperties ''NOT_A_PROPERTY''"
  "uuid_NewSHA1 exampleIDs NameSpaceStandardProperties ''IDENTIFIER_CLAIM_TYPE''
     \<noteq> uuid_NewSHA1 exampleIDs NameSpaceStandardProperties ''NOT_A_PROPERTY''"
  "uuid_NewSHA1 exampleIDs NameSpaceStandardProperties ''REFERENCE_CLAIM_TYPE''
     \<noteq> uuid_NewSHA1 exampleIDs NameSpaceStandardProperties ''NOT_A_PROPERTY''"
  "uuid_NewSHA1 exampleIDs NameSpaceStandardProperties ''TEXT_CLAIM_TYPE''
     \<noteq> uuid_NewSHA1 exampleIDs NameSpaceStandardProperties ''NOT_A_PROPERTY''"
  "uuid_NewSHA1 exampleIDs NameSpaceStandardProperties ''STRING_CLAIM_TYPE''
     \<noteq> uuid_NewSHA1 exampleIDs NameSpaceStandardProperties ''NOT_A_PROPERTY''"
  "uuid_NewSHA1 exampleIDs NameSpaceStandardProperties ''LABEL_CLAIM_TYPE''
     \<noteq> uuid_NewSHA1 exampleIDs NameSpaceStandardProperties ''NOT_A_PROPERTY''"
  "uuid_NewSHA1 exampleIDs NameSpaceStandardProperties ''AMOUNT_CLAIM_TYPE''
     \<noteq> uuid_NewSHA1 exampleIDs NameSpaceStandardProperties ''NOT_A_PROPERTY''"
  "uuid_NewSHA1 exampleIDs NameSpaceStandardProperties ''AMOUNT_RANGE_CLAIM_TYPE''
     \<noteq> uuid_NewSHA1 exampleIDs NameSpaceStandardProperties ''NOT_A_PROPERTY''"
  "uuid_NewSHA1 exampleIDs NameSpaceStandardProperties ''ENUMERATION_CLAIM_TYPE''
     \<noteq> uuid_NewSHA1 exampleIDs NameSpaceStandardProperties ''NOT_A_PROPERTY''"
  "uuid_NewSHA1 exampleIDs NameSpaceStandardProperties ''RELATION_CLAIM_TYPE''
     \<noteq> uuid_NewSHA1 exampleIDs NameSpaceStandardProperties ''NOT_A_PROPERTY''"
  "uuid_NewSHA1 exampleIDs NameSpaceStandardProperties ''TIME_CLAIM_TYPE''
     \<noteq> uuid_NewSHA1 exampleIDs NameSpaceStandardProperties ''NOT_A_PROPERTY''"
  "uuid_NewSHA1 exampleIDs NameSpaceStandardProperties ''TIME_RANGE_CLAIM_TYPE''
     \<noteq> uuid_NewSHA1 exampleIDs NameSpaceStandardProperties ''NOT_A_PROPERTY''"
  "uuid_NewSHA1 exampleIDs NameSpaceStandardProperties ''DURATION_CLAIM_TYPE''
     \<noteq> uuid_NewSHA1 exampleIDs NameSpaceStandardProperties ''NOT_A_PROPERTY''"
  "uuid_NewSHA1 exampleIDs NameSpaceStandardProperties ''DURATION_RANGE_CLAIM_TYPE''
     \<noteq> uuid_NewSHA1 exampleIDs NameSpaceStandardProperties ''NOT_A_PROPERTY''"
  "uuid_NewSHA1 exampleIDs NameSpaceStandardProperties ''FILE_CLAIM_TYPE''
     \<noteq> uuid_NewSHA1 exampleIDs NameSpaceStandardProperties ''NOT_A_PROPERTY''"
  "uuid_NewSHA1 exampleIDs NameSpaceStandardProperties ''LIST_CLAIM_TYPE''
     \<noteq> uuid_NewSHA1 exampleIDs NameSpaceStandardProperties ''NOT_A_PROPERTY''"
  by (simp add: exampleIDs_def NameSpaceStandardProperties_def byte_def)+

lemma unregistered_example:
  "\<forall>registered \<in> set registeredMnemonics.
     getPropertyID exampleIDs registered \<noteq> getPropertyID exampleIDs ''NOT_A_PROPERTY''"
  unfolding registeredMnemonics_value
  by (simp add: exampleIDs_getPropertyID_neq unregistered_uuids)

section \<open>The bootstrap on the example derivation\<close>

theorem bootstrap_documents_witness:
  "(\<exists>d. bootstrapped exampleIDs (claimTypeID exampleIDs ''text'') = Some d
        \<and> propertyDocument exampleIDs d \<and> claimTypeMarker exampleIDs d)
   \<and> (\<exists>d. bootstrapped exampleIDs (getPropertyID exampleIDs ''DESCRIPTION'') = Some d
        \<and> propertyDocument exampleIDs d)"
proof -
  have claimType: "''text'' \<in> set claimTypes"
    by (simp add: claimTypes_def)
  have description: "\<lparr>PName = ''description'', DescriptionPlain = ''description'',
      DescriptionHTML = ''description'', Is = [[CHR 0x22] @ ''text'' @ [CHR 0x22] @ '' claim type'']\<rparr>
      \<in> set builtinProperties"
    by (simp add: builtinProperties_def)
  have mnemonic: "getMnemonic ''description'' = ''DESCRIPTION''"
    by (simp add: getMnemonic_def ToUpper_builtinProperties ReplaceAll_Nil ReplaceAll_byte
             del: ReplaceAll.simps)
  show ?thesis
    using bootstrap_documents [of exampleIDs] claimType description
    by (fastforce simp: builtinPropertyID_def mnemonic)
qed

theorem populateStandardProperties_idempotent_witness:
  "init exampleIDs = Inr (bootstrapped exampleIDs)
   \<and> populateStandardProperties exampleIDs (bootstrapped exampleIDs)
       = Inr (bootstrapped exampleIDs)"
  using populateStandardProperties_idempotent [of exampleIDs Map.empty]
  by (auto simp: init_def bootstrapped_def)

theorem GetStandardPropertyReference_registered_witness:
  \<open>(\<exists>property. bootstrapped exampleIDs (getPropertyID exampleIDs ''IS'') = Some property
      \<and> GetStandardPropertyReference exampleIDs (bootstrapped exampleIDs) ''IS''
          = Inr \<lparr>RefID = getPropertyID exampleIDs ''IS'', RefName = Name property,
                 RefScore = Score property, RefScores = Scores property\<rparr>)
   \<and> GetStandardPropertyReference exampleIDs (bootstrapped exampleIDs) ''NOT_A_PROPERTY''
       = Inl (Panic ''standard property for mnemonic "NOT_A_PROPERTY" cannot be found'')\<close>
proof -
  have "''IS'' \<in> set registeredMnemonics"
    by (simp add: registeredMnemonics_value)
  moreover have "\<forall>registered \<in> set registeredMnemonics.
      getPropertyID exampleIDs registered \<noteq> getPropertyID exampleIDs ''NOT_A_PROPERTY''"
    by (rule unregistered_example)
  ultimately show ?thesis
    using GetStandardPropertyReference_registered [of exampleIDs]
    by fastforce
qed

end
